theory Spec2Isabelle
  imports Main "HOL-Library.AList"
begin

section \<open>Text, bytes and numbers\<close>

text \<open>
  Python \<^verbatim>\<open>bytes\<close> are lists of 8-bit characters. A Python \<^verbatim>\<open>str\<close> is represented by its
  UTF-8 encoding: \<^verbatim>\<open>s.encode()\<close> is then the identity, \<^verbatim>\<open>b.decode()\<close> succeeds exactly on the
  well-formed byte sequences and returns them unchanged, and concatenation, equality,
  \<^verbatim>\<open>startswith\<close> and splitting on an ASCII separator are the same operations on both sides.
  Only \<^verbatim>\<open>len\<close> differs: it counts code points, that is the bytes that are not continuation
  bytes.
\<close>

type_synonym bytes = string
type_synonym str = string

definition cont :: "char \<Rightarrow> bool" where
  "cont c = (0x80 \<le> (of_char c :: nat) \<and> (of_char c :: nat) \<le> 0xBF)"

definition second3 :: "nat \<Rightarrow> char \<Rightarrow> bool" where
  "second3 b c =
     (if b = 0xE0 then 0xA0 \<le> (of_char c :: nat) \<and> (of_char c :: nat) \<le> 0xBF
      else if b = 0xED then 0x80 \<le> (of_char c :: nat) \<and> (of_char c :: nat) \<le> 0x9F
      else cont c)"

definition second4 :: "nat \<Rightarrow> char \<Rightarrow> bool" where
  "second4 b c =
     (if b = 0xF0 then 0x90 \<le> (of_char c :: nat) \<and> (of_char c :: nat) \<le> 0xBF
      else if b = 0xF4 then 0x80 \<le> (of_char c :: nat) \<and> (of_char c :: nat) \<le> 0x8F
      else cont c)"

text \<open>The strict UTF-8 decoder of Python: no overlong forms, no surrogates, nothing past U+10FFFF.\<close>

fun utf8_valid :: "bytes \<Rightarrow> bool" where
  "utf8_valid [] = True"
| "utf8_valid (c # cs) =
     (if (of_char c :: nat) < 0x80 then utf8_valid cs
      else if 0xC2 \<le> (of_char c :: nat) \<and> (of_char c :: nat) \<le> 0xDF then
        (case cs of c1 # r \<Rightarrow> cont c1 \<and> utf8_valid r | _ \<Rightarrow> False)
      else if 0xE0 \<le> (of_char c :: nat) \<and> (of_char c :: nat) \<le> 0xEF then
        (case cs of
           c1 # c2 # r \<Rightarrow> second3 (of_char c) c1 \<and> cont c2 \<and> utf8_valid r
         | _ \<Rightarrow> False)
      else if 0xF0 \<le> (of_char c :: nat) \<and> (of_char c :: nat) \<le> 0xF4 then
        (case cs of
           c1 # c2 # c3 # r \<Rightarrow> second4 (of_char c) c1 \<and> cont c2 \<and> cont c3 \<and> utf8_valid r
         | _ \<Rightarrow> False)
      else False)"

text \<open>\<^verbatim>\<open>len(s)\<close> of a str: its number of code points.\<close>

definition str_len :: "str \<Rightarrow> nat" where
  "str_len s = length (filter (\<lambda>c. \<not> cont c) s)"

text \<open>\<^verbatim>\<open>str(n)\<close> of a non-negative integer: its decimal digits.\<close>

definition digit :: "nat \<Rightarrow> char" where
  "digit d = char_of (of_char (CHR ''0'') + d)"

function str_of_nat :: "nat \<Rightarrow> str" where
  "str_of_nat n = (if n < 10 then [digit n] else str_of_nat (n div 10) @ [digit (n mod 10)])"
  by pat_completeness auto
termination
  by (relation "measure (\<lambda>n. n)") auto

declare str_of_nat.simps [simp del]

text \<open>\<^verbatim>\<open>s.startswith(p)\<close>.\<close>

fun startswith :: "str \<Rightarrow> str \<Rightarrow> bool" where
  "startswith s [] = True"
| "startswith [] (p # ps) = False"
| "startswith (c # cs) (p # ps) = (c = p \<and> startswith cs ps)"

text \<open>\<^verbatim>\<open>s.split(sep)\<close> for a one-character separator: the loop keeps the current piece in \<open>cur\<close>.\<close>

fun split_loop :: "char \<Rightarrow> str \<Rightarrow> str \<Rightarrow> str list" where
  "split_loop sep cur [] = [cur]"
| "split_loop sep cur (c # cs) =
     (if c = sep then cur # split_loop sep [] cs else split_loop sep (cur @ [c]) cs)"

definition split :: "str \<Rightarrow> char \<Rightarrow> str list" where
  "split s sep = split_loop sep [] s"

text \<open>\<^verbatim>\<open>s.split(sep, 1)\<close>: at most one cut, at the first separator.\<close>

fun split1_loop :: "char \<Rightarrow> str \<Rightarrow> str \<Rightarrow> str list" where
  "split1_loop sep cur [] = [cur]"
| "split1_loop sep cur (c # cs) =
     (if c = sep then [cur, cs] else split1_loop sep (cur @ [c]) cs)"

definition split1 :: "str \<Rightarrow> char \<Rightarrow> str list" where
  "split1 s sep = split1_loop sep [] s"

text \<open>\<^verbatim>\<open>sep.join(parts)\<close>.\<close>

fun join_str :: "str \<Rightarrow> str list \<Rightarrow> str" where
  "join_str sep [] = []"
| "join_str sep [p] = p"
| "join_str sep (p # q # ps) = p @ sep @ join_str sep (q # ps)"

section \<open>Failures, requests and JSON values\<close>

text \<open>
  The exceptions the handlers can raise: \<^verbatim>\<open>twisted.web.error.Error(code, message)\<close>,
  \<^verbatim>\<open>scrapyd.exceptions.RunnerError(text)\<close>, and any other Python exception, kept as its type
  name (its text is the library's).
\<close>

datatype exn =
  Error nat bytes
| RunnerError str
| PyExc str

definition http_OK :: nat where "http_OK = 200"
definition http_NO_CONTENT :: nat where "http_NO_CONTENT = 204"
definition http_FORBIDDEN :: nat where "http_FORBIDDEN = 403"
definition http_NOT_FOUND :: nat where "http_NOT_FOUND = 404"
definition http_INTERNAL_SERVER_ERROR :: nat where "http_INTERNAL_SERVER_ERROR = 500"

text \<open>
  The part of a Twisted request the handlers touch: the parameter mapping (wire name to the
  list of its values, in request order), the response code (200 until set) and the response
  headers.
\<close>

record txrequest =
  args :: "(bytes \<times> bytes list) list"
  code :: nat
  headers :: "(str \<times> str) list"

definition setResponseCode :: "nat \<Rightarrow> txrequest \<Rightarrow> txrequest" where
  "setResponseCode c tx = tx\<lparr>code := c\<rparr>"

definition setHeader :: "str \<Rightarrow> str \<Rightarrow> txrequest \<Rightarrow> txrequest" where
  "setHeader name v tx = tx\<lparr>headers := AList.update name v (headers tx)\<rparr>"

text \<open>A request as it arrives: its parameters, response code 200, no header set.\<close>

definition request :: "(bytes \<times> bytes list) list \<Rightarrow> txrequest" where
  "request a = \<lparr>args = a, code = 200, headers = []\<rparr>"

datatype json =
  JNull
| JStr str
| JInt int
| JList "json list"
| JObj "(str \<times> json) list"

section \<open>The daemon's state and its environment\<close>

text \<open>
  A running or finished job as the launcher keeps it (the fields the handlers read and
  write; record fields carry a prefix because \<open>project\<close> and \<open>job\<close> are also the handlers'
  argument names).
\<close>

record process =
  proc_project :: str
  proc_spider :: str
  proc_job :: str
  proc_pid :: nat
  proc_start_time :: nat
  proc_end_time :: "nat option"

typedecl pyfloat

text \<open>A priority is the literal default \<^verbatim>\<open>0\<close> or what \<^verbatim>\<open>float\<close> returned.\<close>

datatype number = IntNum int | FloatNum pyfloat

text \<open>
  Modelled from the spec: a pending job as its queue holds it. The queue and the scheduler are
  outside this file; the spec gives a job its spider, job id, priority, settings mapping and
  extra string arguments, and the handlers read the job id under the key \<^verbatim>\<open>_job\<close>.
\<close>

record message =
  msg_name :: str
  msg_job :: str
  msg_priority :: number
  msg_settings :: "(str \<times> str) list"
  msg_args :: "(str \<times> str) list"

text \<open>
  What the handlers reach through \<^verbatim>\<open>self.root\<close> and the module-level \<^verbatim>\<open>spider_list\<close>:
  \<^verbatim>\<open>poller.queues\<close> (a dict, project to queue), \<^verbatim>\<open>launcher.processes\<close> (a dict, slot to
  process), \<^verbatim>\<open>launcher.finished\<close>, the egg storage, \<^verbatim>\<open>SpiderList.cache\<close> (a
  \<^verbatim>\<open>defaultdict(dict)\<close>: project to version-or-None to spider names), and the signals handed to
  \<^verbatim>\<open>transport.signalProcess\<close> so far (pid and signal name).
\<close>

record root =
  queues :: "(str \<times> message list) list"
  processes :: "(nat \<times> process) list"
  finished :: "process list"
  eggs :: "(str \<times> str) \<rightharpoonup> bytes"
  cache :: "str \<rightharpoonup> (str option \<rightharpoonup> str list)"
  signals :: "(nat \<times> str) list"

text \<open>
  The configuration and the library and operating-system calls the handlers make, taken as
  parameters: \<^verbatim>\<open>root.debug\<close>, \<^verbatim>\<open>root.node_name\<close>, \<^verbatim>\<open>sys.platform == "win32"\<close>,
  \<^verbatim>\<open>uuid.uuid1().hex\<close>, \<^verbatim>\<open>datetime.now()\<close>, the text of a \<^verbatim>\<open>UnicodeDecodeError\<close> for given
  bytes, \<^verbatim>\<open>float\<close> (the error text or the number), \<^verbatim>\<open>str(e)\<close> of a library
  exception, the JSON encoder, \<^verbatim>\<open>traceback.format_exc\<close>, \<^verbatim>\<open>zipfile.is_zipfile\<close>,
  \<^verbatim>\<open>str.splitlines\<close>, the listing subprocess (from the egg storage, the project and
  \<^verbatim>\<open>SCRAPYD_EGG_VERSION\<close> if set, to return code, stdout and stderr), \<^verbatim>\<open>os.getcwd\<close>,
  \<^verbatim>\<open>os.path.exists\<close>, \<^verbatim>\<open>os.path.isfile\<close>, reading a whole file (or the exception that
  \<^verbatim>\<open>open\<close> or \<^verbatim>\<open>read\<close> raised), and \<^verbatim>\<open>root.update_projects\<close>.
\<close>

record env =
  debug :: bool
  node_name :: str
  win32 :: bool
  uuid_hex :: str
  now :: nat
  unicode_error :: "bytes \<Rightarrow> str"
  to_float :: "bytes \<Rightarrow> str + pyfloat"
  exc_text :: "exn \<Rightarrow> str"
  json_encode :: "json \<Rightarrow> str"
  format_exc :: "exn \<Rightarrow> str"
  is_zipfile :: "bytes \<Rightarrow> bool"
  splitlines :: "str \<Rightarrow> str list"
  popen_list :: "((str \<times> str) \<rightharpoonup> bytes) \<Rightarrow> str \<Rightarrow> str option \<Rightarrow> int \<times> bytes \<times> bytes"
  getcwd :: str
  path_exists :: "str \<Rightarrow> bool"
  path_isfile :: "str \<Rightarrow> bool"
  read_file :: "str \<Rightarrow> exn + bytes"
  update_projects :: "root \<Rightarrow> root"

text \<open>\<^verbatim>\<open>b.decode()\<close>: the str, or the text of the \<^verbatim>\<open>UnicodeDecodeError\<close>.\<close>

definition decode :: "env \<Rightarrow> bytes \<Rightarrow> str + str" where
  "decode e b = (if utf8_valid b then Inr b else Inl (unicode_error e b))"

text \<open>\<^verbatim>\<open>type(e).__name__\<close> and \<^verbatim>\<open>str(e)\<close> of an exception.\<close>

definition exn_name :: "exn \<Rightarrow> str" where
  "exn_name x = (case x of Error c m \<Rightarrow> ''Error'' | RunnerError t \<Rightarrow> ''RunnerError'' | PyExc n \<Rightarrow> n)"

definition exn_str :: "env \<Rightarrow> exn \<Rightarrow> str" where
  "exn_str e x = (case x of RunnerError t \<Rightarrow> t | _ \<Rightarrow> exc_text e x)"

section \<open>Request parameter binding\<close>

text \<open>
  A handler takes the request and the daemon's state, and returns what it returned or raised
  together with the request and the state as it left them.
\<close>

type_synonym 'a handler = "txrequest \<Rightarrow> root \<Rightarrow> (exn + 'a) \<times> txrequest \<times> root"

definition raise :: "exn \<Rightarrow> 'a handler" where
  "raise x tx s = (Inl x, tx, s)"

definition return :: "'a \<Rightarrow> 'a handler" where
  "return r tx s = (Inr r, tx, s)"

text \<open>The apostrophe and the double quote of the messages and headers.\<close>

abbreviation sq :: str where
  "sq \<equiv> [CHR 0x27]"

abbreviation dq :: str where
  "dq \<equiv> [CHR 0x22]"

text \<open>
  The values a parameter is bound to: \<^verbatim>\<open>None\<close>, a str, bytes, a number, or a list of these. The
  keyword arguments of a handler are a dict from the destination names to such values.
\<close>

datatype pyval =
  VNone
| VStr str
| VBytes bytes
| VNum number
| VList "pyval list"

type_synonym kwargs = "str \<rightharpoonup> pyval"

datatype ptype = TStr | TBytes | TFloat

text \<open>
  The arguments of the decorator \<^verbatim>\<open>param\<close>. \<open>default_value\<close> is the default of this request:
  the literal, or what the producer (\<^verbatim>\<open>list\<close>, the fresh job id) returned.
\<close>

record pspec =
  decoded :: str
  dest :: str
  required :: bool
  default_value :: pyval
  multiple :: bool
  type :: ptype

text \<open>
  \<^verbatim>\<open>value.decode() if type is str else type(value)\<close>: the bound value, or the text of the
  \<^verbatim>\<open>UnicodeDecodeError\<close> or \<^verbatim>\<open>ValueError\<close>.
\<close>

definition convert :: "env \<Rightarrow> ptype \<Rightarrow> bytes \<Rightarrow> str + pyval" where
  "convert e t v =
     (case t of
        TStr \<Rightarrow> map_sum id VStr (decode e v)
      | TBytes \<Rightarrow> Inr (VBytes v)
      | TFloat \<Rightarrow> map_sum id (\<lambda>f. VNum (FloatNum f)) (to_float e v))"

text \<open>The failure of a conversion, as line 61 raises it.\<close>

definition invalid :: "bytes \<Rightarrow> str \<Rightarrow> exn" where
  "invalid encoded t = Error http_OK (encoded @ '' is invalid: '' @ t)"

text \<open>\<^verbatim>\<open>list(values)\<close>: every value is converted, in request order, up to the first failure.\<close>

fun list_values :: "env \<Rightarrow> ptype \<Rightarrow> bytes \<Rightarrow> bytes list \<Rightarrow> exn + pyval list" where
  "list_values e t encoded [] = Inr []"
| "list_values e t encoded (v # vs) =
     (case convert e t v of
        Inl u \<Rightarrow> Inl (invalid encoded u)
      | Inr x \<Rightarrow>
          (case list_values e t encoded vs of Inl u \<Rightarrow> Inl u | Inr xs \<Rightarrow> Inr (x # xs)))"

text \<open>
  \<^verbatim>\<open>next(values)\<close>: the generator converts the first value only; an empty list of values ends
  it at once, which no \<^verbatim>\<open>except\<close> clause of the wrapper catches.
\<close>

fun next_value :: "env \<Rightarrow> ptype \<Rightarrow> bytes \<Rightarrow> bytes list \<Rightarrow> exn + pyval" where
  "next_value e t encoded [] = Inl (PyExc ''StopIteration'')"
| "next_value e t encoded (v # vs) =
     (case convert e t v of Inl u \<Rightarrow> Inl (invalid encoded u) | Inr x \<Rightarrow> Inr x)"

text \<open>
  Lines 49 to 63 of the wrapper: the keyword arguments with the parameter bound, or the
  failure, and the request (whose mapping has lost the wire name once it was found).
\<close>

definition bind_param :: "env \<Rightarrow> pspec \<Rightarrow> kwargs \<Rightarrow> txrequest \<Rightarrow> (exn + kwargs) \<times> txrequest" where
  "bind_param e p kw tx =
     (let encoded = decoded p in
      case map_of (args tx) encoded of
        None \<Rightarrow>
          if required p then
            (Inl (Error http_OK (sq @ encoded @ sq @ '' parameter is required'')), tx)
          else (Inr (kw(dest p \<mapsto> default_value p)), tx)
      | Some raw \<Rightarrow>
          (let tx' = tx\<lparr>args := AList.delete encoded (args tx)\<rparr> in
           case (if multiple p then map_sum id VList (list_values e (type p) encoded raw)
                 else next_value e (type p) encoded raw) of
             Inl x \<Rightarrow> (Inl x, tx')
           | Inr v \<Rightarrow> (Inr (kw(dest p \<mapsto> v)), tx')))"

text \<open>The decorator: the wrapper binds its parameter and calls the wrapped function.\<close>

definition param :: "env \<Rightarrow> pspec \<Rightarrow> (kwargs \<Rightarrow> 'a handler) \<Rightarrow> kwargs \<Rightarrow> 'a handler" where
  "param e p func kw tx s =
     (case bind_param e p kw tx of
        (Inl x, tx') \<Rightarrow> raise x tx' s
      | (Inr kw', tx') \<Rightarrow> func kw' tx' s)"

text \<open>A stack of decorators, the first of the list outermost, around a handler body.\<close>

definition decorate :: "env \<Rightarrow> pspec list \<Rightarrow> (kwargs \<Rightarrow> 'a handler) \<Rightarrow> kwargs \<Rightarrow> 'a handler" where
  "decorate e ps body = foldr (param e) ps body"

text \<open>\<^verbatim>\<open>param(name)\<close> with the defaults of the decorator, and its variants in this file.\<close>

definition req :: "str \<Rightarrow> pspec" where
  "req name = \<lparr>decoded = name, dest = name, required = True, default_value = VNone,
     multiple = False, type = TStr\<rparr>"

definition opt :: "str \<Rightarrow> pspec" where
  "opt name = (req name)\<lparr>required := False\<rparr>"

text \<open>
  Reading a keyword argument where the body uses it as a str, as a str or \<^verbatim>\<open>None\<close>, as bytes,
  as a number, as a list of strs. A body called without one of its arguments, or using a value
  of another type as one of these, ends in a \<^verbatim>\<open>TypeError\<close>.
\<close>

definition str_arg :: "kwargs \<Rightarrow> str \<Rightarrow> str option" where
  "str_arg kw name = (case kw name of Some (VStr v) \<Rightarrow> Some v | _ \<Rightarrow> None)"

definition opt_str_arg :: "kwargs \<Rightarrow> str \<Rightarrow> str option option" where
  "opt_str_arg kw name =
     (case kw name of Some (VStr v) \<Rightarrow> Some (Some v) | Some VNone \<Rightarrow> Some None | _ \<Rightarrow> None)"

definition bytes_arg :: "kwargs \<Rightarrow> str \<Rightarrow> bytes option" where
  "bytes_arg kw name = (case kw name of Some (VBytes v) \<Rightarrow> Some v | _ \<Rightarrow> None)"

definition num_arg :: "kwargs \<Rightarrow> str \<Rightarrow> number option" where
  "num_arg kw name = (case kw name of Some (VNum v) \<Rightarrow> Some v | _ \<Rightarrow> None)"

fun strs :: "pyval list \<Rightarrow> str list option" where
  "strs [] = Some []"
| "strs (VStr v # vs) = (case strs vs of Some xs \<Rightarrow> Some (v # xs) | None \<Rightarrow> None)"
| "strs (v # vs) = None"

definition str_list_arg :: "kwargs \<Rightarrow> str \<Rightarrow> str list option" where
  "str_list_arg kw name = (case kw name of Some (VList vs) \<Rightarrow> strs vs | _ \<Rightarrow> None)"

section \<open>The spider-list cache\<close>

type_synonym spider_cache = "str \<rightharpoonup> (str option \<rightharpoonup> str list)"

text \<open>
  \<^verbatim>\<open>self.cache[project]\<close> on the \<^verbatim>\<open>defaultdict(dict)\<close>: a project that has no entry gets an empty
  one. The inner dict is shared with the cache, so what is done to it is written back.
\<close>

definition cache_getitem :: "spider_cache \<Rightarrow> str \<Rightarrow> (str option \<rightharpoonup> str list) \<times> spider_cache" where
  "cache_getitem c project =
     (case c project of
        None \<Rightarrow> (Map.empty, c(project \<mapsto> Map.empty))
      | Some d \<Rightarrow> (d, c))"

text \<open>\<^verbatim>\<open>self.cache[project].pop(key, None)\<close>.\<close>

definition inner_pop :: "spider_cache \<Rightarrow> str \<Rightarrow> str option \<Rightarrow> spider_cache" where
  "inner_pop c project key =
     (let (d, c') = cache_getitem c project in c'(project \<mapsto> d(key := None)))"

text \<open>\<^verbatim>\<open>self.cache[project][key] = spiders\<close>.\<close>

definition inner_setitem :: "spider_cache \<Rightarrow> str \<Rightarrow> str option \<Rightarrow> str list \<Rightarrow> spider_cache" where
  "inner_setitem c project key spiders =
     (let (d, c') = cache_getitem c project in c'(project \<mapsto> d(key \<mapsto> spiders)))"

text \<open>\<^verbatim>\<open>stderr or stdout or b""\<close>.\<close>

definition first_nonempty :: "bytes \<Rightarrow> bytes \<Rightarrow> bytes" where
  "first_nonempty err out = (if err \<noteq> [] then err else if out \<noteq> [] then out else [])"

text \<open>
  \<^verbatim>\<open>SpiderList.set\<close>: the listing command runs with \<^verbatim>\<open>SCRAPYD_EGG_VERSION\<close> only for a version
  that is neither \<^verbatim>\<open>None\<close> nor empty; a non-zero return code raises before the cache is touched.
\<close>

definition SpiderList_set :: "env \<Rightarrow> str \<Rightarrow> str option \<Rightarrow> root \<Rightarrow> (exn + str list) \<times> root" where
  "SpiderList_set e project version s =
     (case popen_list e (eggs s) project
             (if version \<noteq> None \<and> version \<noteq> Some [] then version else None) of
        (returncode, stdout, stderr) \<Rightarrow>
          if returncode \<noteq> 0 then
            (case decode e (first_nonempty stderr stdout) of
               Inl u \<Rightarrow> (Inl (PyExc ''UnicodeDecodeError''), s)
             | Inr t \<Rightarrow> (Inl (RunnerError t), s))
          else
            (case decode e stdout of
               Inl u \<Rightarrow> (Inl (PyExc ''UnicodeDecodeError''), s)
             | Inr out \<Rightarrow>
                 (let spiders = splitlines e out;
                      c1 = inner_pop (cache s) project None;
                      c2 = inner_setitem c1 project version spiders
                  in (Inr spiders, s\<lparr>cache := c2\<rparr>))))"

text \<open>\<^verbatim>\<open>SpiderList.get\<close>: the \<^verbatim>\<open>KeyError\<close> of the inner lookup leads to \<^verbatim>\<open>set\<close>.\<close>

definition SpiderList_get :: "env \<Rightarrow> str \<Rightarrow> str option \<Rightarrow> root \<Rightarrow> (exn + str list) \<times> root" where
  "SpiderList_get e project version s =
     (let (d, c') = cache_getitem (cache s) project in
      case d version of
        Some spiders \<Rightarrow> (Inr spiders, s\<lparr>cache := c'\<rparr>)
      | None \<Rightarrow> SpiderList_set e project version (s\<lparr>cache := c'\<rparr>))"

text \<open>\<^verbatim>\<open>SpiderList.delete\<close>.\<close>

definition SpiderList_delete :: "str \<Rightarrow> str option \<Rightarrow> spider_cache \<Rightarrow> spider_cache" where
  "SpiderList_delete project version c =
     (case version of
        None \<Rightarrow> c(project := None)
      | Some v \<Rightarrow> inner_pop (inner_pop c project None) project (Some v))"

text \<open>What the cache holds for a project and a version (or for no version): the entry, if any.\<close>

definition cached :: "spider_cache \<Rightarrow> str \<Rightarrow> str option \<Rightarrow> str list option" where
  "cached c project version = (case c project of None \<Rightarrow> None | Some d \<Rightarrow> d version)"

section \<open>Rendering\<close>

text \<open>
  \<^verbatim>\<open>render\<close> of the resources, around the handler that Twisted's \<^verbatim>\<open>Resource.render\<close> dispatched
  to. Each returns the body, or the exception that left \<^verbatim>\<open>render\<close> uncaught.
\<close>

text \<open>\<^verbatim>\<open>methods\<close>: \<^verbatim>\<open>OPTIONS\<close> and \<^verbatim>\<open>HEAD\<close>, then the handlers the resource has.\<close>

definition methods :: "bool \<Rightarrow> bool \<Rightarrow> str" where
  "methods has_GET has_POST =
     join_str '', '' ([''OPTIONS'', ''HEAD''] @ (if has_GET then [''GET''] else []) @
       (if has_POST then [''POST''] else []))"

text \<open>
  Line 147: the message of the error envelope. Decoding the message of an \<^verbatim>\<open>Error\<close> raises
  inside the \<^verbatim>\<open>except\<close> block when the bytes are not UTF-8.
\<close>

definition error_message :: "env \<Rightarrow> exn \<Rightarrow> exn + str" where
  "error_message e x =
     (case x of
        Error c m \<Rightarrow>
          (case decode e m of Inl u \<Rightarrow> Inl (PyExc ''UnicodeDecodeError'') | Inr t \<Rightarrow> Inr t)
      | _ \<Rightarrow> Inr (exn_name x @ '': '' @ exn_str e x))"

text \<open>Lines 141 and 142: an \<^verbatim>\<open>Error\<close> sets the response code to its status.\<close>

definition set_error_code :: "exn \<Rightarrow> txrequest \<Rightarrow> txrequest" where
  "set_error_code x tx = (case x of Error c m \<Rightarrow> setResponseCode c tx | _ \<Rightarrow> tx)"

text \<open>The headers every envelope response gets (lines 160 to 163).\<close>

definition cors_headers :: "str \<Rightarrow> bytes \<Rightarrow> txrequest \<Rightarrow> txrequest" where
  "cors_headers ms content tx =
     setHeader ''Content-Length'' (str_of_nat (length content))
       (setHeader ''Access-Control-Allow-Headers'' ''X-Requested-With''
         (setHeader ''Access-Control-Allow-Methods'' ms
           (setHeader ''Access-Control-Allow-Origin'' ''*'' tx)))"

text \<open>Lines 153 to 164 of \<^verbatim>\<open>WsResource.render\<close>.\<close>

definition ws_content :: "env \<Rightarrow> str \<Rightarrow> (str \<times> json) list option \<Rightarrow> txrequest \<Rightarrow> bytes \<times> txrequest" where
  "ws_content e ms data tx =
     (case data of
        None \<Rightarrow> ([], cors_headers ms [] tx)
      | Some d \<Rightarrow>
          (let content =
                 json_encode e (JObj (AList.update ''node_name'' (JStr (node_name e)) d)) @
                 [CHR 0x0A]
           in (content, cors_headers ms content (setHeader ''Content-Type'' ''application/json'' tx))))"

definition WsResource_render :: "env \<Rightarrow> str \<Rightarrow> (str \<times> json) list option handler \<Rightarrow>
    txrequest \<Rightarrow> root \<Rightarrow> (exn + bytes) \<times> txrequest \<times> root" where
  "WsResource_render e ms h tx s =
     (case h tx s of
        (Inl x, tx1, s1) \<Rightarrow>
          (let tx2 = set_error_code x tx1 in
           if debug e then (Inr (format_exc e x), tx2, s1)
           else
             (case error_message e x of
                Inl u \<Rightarrow> (Inl u, tx2, s1)
              | Inr message \<Rightarrow>
                  (case ws_content e ms
                          (Some [(''status'', JStr ''error''), (''message'', JStr message)]) tx2 of
                     (content, tx3) \<Rightarrow> (Inr content, tx3, s1))))
      | (Inr data, tx1, s1) \<Rightarrow>
          (case ws_content e ms (map_option (AList.update ''status'' (JStr ''ok'')) data) tx1 of
             (content, tx3) \<Rightarrow> (Inr content, tx3, s1)))"

text \<open>Lines 264 to 274 of \<^verbatim>\<open>JustContentResource.render\<close>: no \<^verbatim>\<open>status\<close>, no \<^verbatim>\<open>node_name\<close>.\<close>

definition just_content :: "env \<Rightarrow> str \<Rightarrow> json option \<Rightarrow> txrequest \<Rightarrow> bytes \<times> txrequest" where
  "just_content e ms data tx =
     (case data of
        None \<Rightarrow> ([], cors_headers ms [] tx)
      | Some d \<Rightarrow>
          (let content = json_encode e d @ [CHR 0x0A]
           in (content, cors_headers ms content (setHeader ''Content-Type'' ''application/json'' tx))))"

definition JustContentResource_render :: "env \<Rightarrow> str \<Rightarrow> json option handler \<Rightarrow>
    txrequest \<Rightarrow> root \<Rightarrow> (exn + bytes) \<times> txrequest \<times> root" where
  "JustContentResource_render e ms h tx s =
     (case h tx s of
        (Inl x, tx1, s1) \<Rightarrow>
          (let tx2 = set_error_code x tx1 in
           if debug e then (Inr (format_exc e x), tx2, s1)
           else
             (case error_message e x of
                Inl u \<Rightarrow> (Inl u, tx2, s1)
              | Inr message \<Rightarrow>
                  (case just_content e ms
                          (Some (JObj [(''status'', JStr ''error''), (''message'', JStr message)]))
                          tx2 of
                     (content, tx3) \<Rightarrow> (Inr content, tx3, s1))))
      | (Inr data, tx1, s1) \<Rightarrow>
          (case just_content e ms data tx1 of (content, tx3) \<Rightarrow> (Inr content, tx3, s1)))"

text \<open>\<^verbatim>\<open>RawContentResource.render\<close>: the handler's result, and its exception, as they are.\<close>

definition RawContentResource_render :: "bytes handler \<Rightarrow> txrequest \<Rightarrow> root \<Rightarrow>
    (exn + bytes) \<times> txrequest \<times> root" where
  "RawContentResource_render h tx s = h tx s"

text \<open>\<^verbatim>\<open>SpiderResults.render\<close>: the handler's bytes, or the error object without newline or headers.\<close>

definition SpiderResults_render :: "env \<Rightarrow> bytes handler \<Rightarrow> txrequest \<Rightarrow> root \<Rightarrow>
    (exn + bytes) \<times> txrequest \<times> root" where
  "SpiderResults_render e h tx s =
     (case h tx s of
        (Inr data, tx1, s1) \<Rightarrow> (Inr data, tx1, s1)
      | (Inl x, tx1, s1) \<Rightarrow>
          (let tx2 = set_error_code x tx1 in
           if debug e then (Inr (format_exc e x), tx2, s1)
           else
             (case error_message e x of
                Inl u \<Rightarrow> (Inl u, tx2, s1)
              | Inr message \<Rightarrow>
                  (Inr (json_encode e (JObj [(''status'', JStr ''error''), (''message'', JStr message)])),
                   tx2, s1))))"

section \<open>Paths and the result downloads\<close>

text \<open>\<^verbatim>\<open>os.path.join\<close> (POSIX): a component that starts with a slash restarts the path.\<close>

definition join_step :: "str \<Rightarrow> str \<Rightarrow> str" where
  "join_step path b =
     (if startswith b ''/'' then b
      else if path = [] \<or> last path = CHR ''/'' then path @ b
      else path @ ''/'' @ b)"

definition os_path_join :: "str \<Rightarrow> str list \<Rightarrow> str" where
  "os_path_join a p = foldl join_step a p"

text \<open>
  The loop of \<^verbatim>\<open>os.path.normpath\<close> (POSIX) over the components: empty and \<^verbatim>\<open>.\<close> components are
  dropped, \<^verbatim>\<open>..\<close> removes the component before it, is kept at the start of a relative path and
  after another \<^verbatim>\<open>..\<close>, and is dropped at the root.
\<close>

fun normpath_loop :: "nat \<Rightarrow> str list \<Rightarrow> str list \<Rightarrow> str list" where
  "normpath_loop initial_slashes new_comps [] = new_comps"
| "normpath_loop initial_slashes new_comps (component # comps) =
     (if component = [] \<or> component = ''.'' then normpath_loop initial_slashes new_comps comps
      else if component \<noteq> ''..'' \<or> (initial_slashes = 0 \<and> new_comps = []) \<or>
              (new_comps \<noteq> [] \<and> last new_comps = ''..'')
        then normpath_loop initial_slashes (new_comps @ [component]) comps
      else if new_comps \<noteq> [] then normpath_loop initial_slashes (butlast new_comps) comps
      else normpath_loop initial_slashes new_comps comps)"

definition normpath :: "str \<Rightarrow> str" where
  "normpath path =
     (if path = [] then ''.''
      else
        (let initial_slashes =
               (if startswith path ''/'' then
                  (if startswith path ''//'' \<and> \<not> startswith path ''///'' then 2 else 1)
                else 0);
             path' = replicate initial_slashes (CHR ''/'') @
                     join_str ''/'' (normpath_loop initial_slashes [] (split path (CHR ''/'')))
         in if path' = [] then ''.'' else path'))"

definition abspath :: "env \<Rightarrow> str \<Rightarrow> str" where
  "abspath e path =
     normpath (if startswith path ''/'' then path else os_path_join (getcwd e) [path])"

text \<open>
  The body of \<^verbatim>\<open>SpiderDownloadResult.render_GET\<close>. The first test is on the path as the f-string
  builds it; the containment test is \<^verbatim>\<open>startswith\<close> on the absolute paths; the file is opened by
  the joined path.
\<close>

definition SpiderDownloadResult_body :: "env \<Rightarrow> str \<Rightarrow> str \<Rightarrow> bytes handler" where
  "SpiderDownloadResult_body e project job_id tx s =
     (let directory_path = ''results/'' @ project @ ''/'' @ job_id in
      if \<not> path_exists e directory_path \<or> \<not> path_isfile e directory_path then
        (Inr ''File not found'', setResponseCode http_NOT_FOUND tx, s)
      else
        (let base_directory = ''results'';
             directory_path = os_path_join base_directory [project, job_id];
             absolute_path = abspath e directory_path
         in
           if \<not> startswith absolute_path (abspath e base_directory) then
             (Inr ''File not found'', setResponseCode http_FORBIDDEN tx, s)
           else if \<not> path_exists e absolute_path \<or> \<not> path_isfile e absolute_path then
             (Inr ''File not found'', setResponseCode http_NOT_FOUND tx, s)
           else
             (case read_file e directory_path of
                Inl x \<Rightarrow>
                  (Inr ''Error sending results'', setResponseCode http_INTERNAL_SERVER_ERROR tx, s)
              | Inr content \<Rightarrow>
                  (Inr content,
                   setHeader ''Content-Length'' (str_of_nat (str_len job_id))
                     (setHeader ''Content-Disposition'' (''attachment; filename='' @ dq @ job_id @ dq)
                       (setHeader ''Content-Type'' ''application/json'' tx)),
                   s))))"

definition SpiderDownloadResult_call :: "env \<Rightarrow> kwargs \<Rightarrow> bytes handler" where
  "SpiderDownloadResult_call e kw =
     (case (str_arg kw ''project'', str_arg kw ''job_id'') of
        (Some project, Some job_id) \<Rightarrow> SpiderDownloadResult_body e project job_id
      | _ \<Rightarrow> raise (PyExc ''TypeError''))"

definition SpiderDownloadResult_render_GET :: "env \<Rightarrow> bytes handler" where
  "SpiderDownloadResult_render_GET e =
     decorate e [req ''project'', req ''job_id''] (SpiderDownloadResult_call e) Map.empty"

text \<open>
  The body of \<^verbatim>\<open>SpiderResults.render_GET\<close>: \<^verbatim>\<open>FileNotFoundError\<close> gives 404, any other exception
  500 with the traceback or the exception's text.
\<close>

definition SpiderResults_body :: "env \<Rightarrow> str \<Rightarrow> str \<Rightarrow> str \<Rightarrow> bytes handler" where
  "SpiderResults_body e project configID configName tx s =
     (let file_path =
            ''results/'' @ project @ ''/local-'' @ configName @ ''-'' @ configID @ ''-result.json''
      in
        case read_file e file_path of
          Inr content \<Rightarrow>
            (Inr content,
             setHeader ''Content-Length'' (str_of_nat (length content))
               (setHeader ''Content-Type'' ''application/octet-stream''
                 (setHeader ''Content-Disposition''
                    (''attachment; filename='' @ configName @ ''-'' @ configID @ ''-result'') tx)),
             s)
        | Inl x \<Rightarrow>
            if x = PyExc ''FileNotFoundError'' then
              (Inr ''File not found'', setResponseCode 404 tx, s)
            else if debug e then (Inr (format_exc e x), setResponseCode 500 tx, s)
            else (Inr (''Error: '' @ exn_str e x), setResponseCode 500 tx, s))"

definition SpiderResults_call :: "env \<Rightarrow> kwargs \<Rightarrow> bytes handler" where
  "SpiderResults_call e kw =
     (case (str_arg kw ''project'', str_arg kw ''configID'', str_arg kw ''configName'') of
        (Some project, Some configID, Some configName) \<Rightarrow>
          SpiderResults_body e project configID configName
      | _ \<Rightarrow> raise (PyExc ''TypeError''))"

definition SpiderResults_render_GET :: "env \<Rightarrow> bytes handler" where
  "SpiderResults_render_GET e =
     decorate e [req ''project'', req ''configID'', req ''configName'']
       (SpiderResults_call e) Map.empty"

text \<open>
  The spec's notion of a path inside the results root, for comparison with the test the
  handler makes: the root itself or a path below it.
\<close>

definition inside_results_root :: "env \<Rightarrow> str \<Rightarrow> bool" where
  "inside_results_root e path =
     (path = abspath e ''results'' \<or> startswith path (abspath e ''results'' @ ''/''))"

section \<open>Job control\<close>

text \<open>The message of the \<^verbatim>\<open>not found\<close> errors: \<^verbatim>\<open>b"project '%b' not found" % project.encode()\<close>.\<close>

definition not_found :: "str \<Rightarrow> str \<Rightarrow> exn" where
  "not_found kind name = Error http_OK (kind @ '' '' @ sq @ name @ sq @ '' not found'')"

subsection \<open>Status\<close>

text \<open>
  The loop over the finished records, and the same loop over the running processes: the first
  record of the project (of any project, when none is given) with the job id ends it.
\<close>

fun job_in :: "str option \<Rightarrow> str \<Rightarrow> process list \<Rightarrow> bool" where
  "job_in project job [] = False"
| "job_in project job (p # ps) =
     (if (project = None \<or> Some (proc_project p) = project) \<and> proc_job p = job then True
      else job_in project job ps)"

text \<open>The loop over the messages of one queue.\<close>

fun job_pending :: "str \<Rightarrow> message list \<Rightarrow> bool" where
  "job_pending job [] = False"
| "job_pending job (m # ms) = (if msg_job m = job then True else job_pending job ms)"

text \<open>
  The loop over the queue names; \<^verbatim>\<open>queues[queue_name]\<close> raises \<^verbatim>\<open>KeyError\<close> for a name without
  queue.
\<close>

fun pending_loop :: "(str \<times> message list) list \<Rightarrow> str \<Rightarrow> str list \<Rightarrow> exn + bool" where
  "pending_loop qs job [] = Inr False"
| "pending_loop qs job (queue_name # names) =
     (case map_of qs queue_name of
        None \<Rightarrow> Inl (PyExc ''KeyError'')
      | Some q \<Rightarrow> if job_pending job q then Inr True else pending_loop qs job names)"

definition Status_body :: "str \<Rightarrow> str option \<Rightarrow> (str \<times> json) list option handler" where
  "Status_body job project tx s =
     (if (case project of None \<Rightarrow> False | Some p \<Rightarrow> map_of (queues s) p = None) then
        raise (not_found ''project'' (case project of None \<Rightarrow> [] | Some p \<Rightarrow> p)) tx s
      else if job_in project job (finished s) then
        return (Some [(''currstate'', JStr ''finished'')]) tx s
      else if job_in project job (map snd (processes s)) then
        return (Some [(''currstate'', JStr ''running'')]) tx s
      else
        (case pending_loop (queues s) job
                (case project of None \<Rightarrow> map fst (queues s) | Some p \<Rightarrow> [p]) of
           Inl x \<Rightarrow> raise x tx s
         | Inr True \<Rightarrow> return (Some [(''currstate'', JStr ''pending'')]) tx s
         | Inr False \<Rightarrow> return (Some [(''currstate'', JNull)]) tx s))"

definition Status_call :: "kwargs \<Rightarrow> (str \<times> json) list option handler" where
  "Status_call kw =
     (case (str_arg kw ''job'', opt_str_arg kw ''project'') of
        (Some job, Some project) \<Rightarrow> Status_body job project
      | _ \<Rightarrow> raise (PyExc ''TypeError''))"

definition Status_render_GET :: "env \<Rightarrow> (str \<times> json) list option handler" where
  "Status_render_GET e = decorate e [req ''job'', opt ''project''] Status_call Map.empty"

subsection \<open>Cancel\<close>

text \<open>
  Modelled from the spec: the queue's predicate-based removal. Every message that satisfies the
  predicate is removed; the number of removed messages is returned.
\<close>

definition queue_remove :: "(message \<Rightarrow> bool) \<Rightarrow> message list \<Rightarrow> nat \<times> message list" where
  "queue_remove func q = (length (filter func q), filter (\<lambda>m. \<not> func m) q)"

text \<open>
  Modelled from the spec: the finished set's \<^verbatim>\<open>add\<close> appends the record; the transport's
  \<^verbatim>\<open>signalProcess\<close> hands the signal to the process and returns.
\<close>

definition finished_add :: "process \<Rightarrow> root \<Rightarrow> root" where
  "finished_add p s = s\<lparr>finished := finished s @ [p]\<rparr>"

definition signalProcess :: "process \<Rightarrow> str \<Rightarrow> root \<Rightarrow> root" where
  "signalProcess p sig s = s\<lparr>signals := signals s @ [(proc_pid p, sig)]\<rparr>"

text \<open>
  The loop of lines 667 to 674 over the snapshot \<^verbatim>\<open>list(processes.items())\<close>, with
  \<^verbatim>\<open>prevstate\<close> and the daemon's state as they change.
\<close>

fun cancel_loop :: "env \<Rightarrow> str \<Rightarrow> str \<Rightarrow> str \<Rightarrow> (nat \<times> process) list \<Rightarrow> json \<times> root \<Rightarrow> json \<times> root" where
  "cancel_loop e project job sig [] (prevstate, s) = (prevstate, s)"
| "cancel_loop e project job sig ((key, p) # items) (prevstate, s) =
     (if proc_project p = project \<and> proc_job p = job then
        (let s1 = signalProcess p sig s;
             s2 = s1\<lparr>processes := AList.delete key (processes s1)\<rparr>;
             s3 = finished_add (p\<lparr>proc_end_time := Some (now e)\<rparr>) s2
         in cancel_loop e project job sig items (JStr ''running'', s3))
      else cancel_loop e project job sig items (prevstate, s))"

definition Cancel_body :: "env \<Rightarrow> str \<Rightarrow> str \<Rightarrow> str \<Rightarrow> (str \<times> json) list option handler" where
  "Cancel_body e project job sig tx s =
     (case map_of (queues s) project of
        None \<Rightarrow> raise (not_found ''project'' project) tx s
      | Some q \<Rightarrow>
          (case queue_remove (\<lambda>message. msg_job message = job) q of
             (removed, q') \<Rightarrow>
               (let s1 = s\<lparr>queues := AList.update project q' (queues s)\<rparr>;
                    prevstate = (if removed \<noteq> 0 then JStr ''pending'' else JNull)
                in case cancel_loop e project job sig (processes s1) (prevstate, s1) of
                     (prevstate', s2) \<Rightarrow> return (Some [(''prevstate'', prevstate')]) tx s2)))"

definition Cancel_call :: "env \<Rightarrow> kwargs \<Rightarrow> (str \<times> json) list option handler" where
  "Cancel_call e kw =
     (case (str_arg kw ''project'', str_arg kw ''job'', str_arg kw ''signal'') of
        (Some project, Some job, Some sig) \<Rightarrow> Cancel_body e project job sig
      | _ \<Rightarrow> raise (PyExc ''TypeError''))"

definition Cancel_render_POST :: "env \<Rightarrow> (str \<times> json) list option handler" where
  "Cancel_render_POST e =
     decorate e
       [req ''project'', req ''job'',
        (opt ''signal'')\<lparr>default_value := VStr (if win32 e then ''BREAK'' else ''INT'')\<rparr>]
       (Cancel_call e) Map.empty"

subsection \<open>Schedule\<close>

text \<open>
  Modelled from the spec: the egg store's \<^verbatim>\<open>get\<close> by project and version, \<^verbatim>\<open>(None, None)\<close> when
  the version does not resolve.
\<close>

definition eggstorage_get :: "((str \<times> str) \<rightharpoonup> bytes) \<Rightarrow> str \<Rightarrow> str \<Rightarrow> str option \<times> bytes option" where
  "eggstorage_get store project version =
     (case store (project, version) of None \<Rightarrow> (None, None) | Some egg \<Rightarrow> (Some version, Some egg))"

text \<open>
  Line 636, the dict comprehension over what is left of the request's mapping: each key
  decoded, the first of its values decoded, later keys after earlier ones.
\<close>

fun args_loop :: "env \<Rightarrow> (str \<times> str) list \<Rightarrow> (bytes \<times> bytes list) list \<Rightarrow> exn + (str \<times> str) list" where
  "args_loop e acc [] = Inr acc"
| "args_loop e acc ((key, vs) # items) =
     (case decode e key of
        Inl u \<Rightarrow> Inl (PyExc ''UnicodeDecodeError'')
      | Inr k \<Rightarrow>
          (case vs of
             [] \<Rightarrow> Inl (PyExc ''IndexError'')
           | v # rest \<Rightarrow>
               (case decode e v of
                  Inl u \<Rightarrow> Inl (PyExc ''UnicodeDecodeError'')
                | Inr x \<Rightarrow> args_loop e (AList.update k x acc) items)))"

text \<open>
  \<^verbatim>\<open>dict(s.split("=", 1) for s in setting)\<close>: a setting without \<^verbatim>\<open>=\<close> gives a one-element list,
  which \<^verbatim>\<open>dict\<close> refuses with a \<^verbatim>\<open>ValueError\<close>.
\<close>

fun settings_loop :: "(str \<times> str) list \<Rightarrow> str list \<Rightarrow> exn + (str \<times> str) list" where
  "settings_loop acc [] = Inr acc"
| "settings_loop acc (s # ss) =
     (case split1 s (CHR ''='') of
        [k, v] \<Rightarrow> settings_loop (AList.update k v acc) ss
      | _ \<Rightarrow> Inl (PyExc ''ValueError''))"

text \<open>
  Modelled from the spec: the scheduler's enqueue with arbitrary keyword arguments. The job
  joins the queue of its project.
\<close>

definition scheduler_schedule :: "str \<Rightarrow> str \<Rightarrow> number \<Rightarrow> (str \<times> str) list \<Rightarrow> str \<Rightarrow>
    (str \<times> str) list \<Rightarrow> root \<Rightarrow> root" where
  "scheduler_schedule project spider priority settings job spider_args s =
     s\<lparr>queues :=
         AList.update project
           ((case map_of (queues s) project of None \<Rightarrow> [] | Some q \<Rightarrow> q) @
            [\<lparr>msg_name = spider, msg_job = job, msg_priority = priority,
              msg_settings = settings, msg_args = spider_args\<rparr>])
           (queues s)\<rparr>"

text \<open>
  The call of line 640 passes \<^verbatim>\<open>priority\<close>, \<^verbatim>\<open>settings\<close> and \<^verbatim>\<open>_job\<close> by keyword next to
  \<^verbatim>\<open>**args\<close>: a key of \<^verbatim>\<open>args\<close> that repeats one of them is a \<^verbatim>\<open>TypeError\<close> of the call.
\<close>

definition keyword_clash :: "(str \<times> str) list \<Rightarrow> bool" where
  "keyword_clash spider_args =
     (map_of spider_args ''priority'' \<noteq> None \<or> map_of spider_args ''settings'' \<noteq> None \<or>
      map_of spider_args ''_job'' \<noteq> None)"

text \<open>The body of \<^verbatim>\<open>Schedule.render_POST\<close>; \<open>spider_args\<close> is its local \<^verbatim>\<open>args\<close>.\<close>

definition Schedule_body :: "env \<Rightarrow> str \<Rightarrow> str \<Rightarrow> str option \<Rightarrow> str \<Rightarrow> number \<Rightarrow> str list \<Rightarrow>
    (str \<times> json) list option handler" where
  "Schedule_body e project spider version jobid priority setting tx s =
     (if map_of (queues s) project = None then raise (not_found ''project'' project) tx s
      else if (case version of
                 None \<Rightarrow> False
               | Some v \<Rightarrow> v \<noteq> [] \<and> eggstorage_get (eggs s) project v = (None, None)) then
        raise (not_found ''version'' (case version of None \<Rightarrow> [] | Some v \<Rightarrow> v)) tx s
      else
        (case SpiderList_get e project version s of
           (Inl x, s1) \<Rightarrow> raise x tx s1
         | (Inr spiders, s1) \<Rightarrow>
             if spider \<notin> set spiders then raise (not_found ''spider'' spider) tx s1
             else
               (case args_loop e [] (args tx) of
                  Inl x \<Rightarrow> raise x tx s1
                | Inr spider_args0 \<Rightarrow>
                    (let spider_args =
                           (case version of
                              None \<Rightarrow> spider_args0
                            | Some v \<Rightarrow> AList.update ''_version'' v spider_args0)
                     in case settings_loop [] setting of
                          Inl x \<Rightarrow> raise x tx s1
                        | Inr settings \<Rightarrow>
                            if keyword_clash spider_args then raise (PyExc ''TypeError'') tx s1
                            else
                              return (Some [(''jobid'', JStr jobid)]) tx
                                (scheduler_schedule project spider priority settings jobid
                                   spider_args s1)))))"

definition Schedule_call :: "env \<Rightarrow> kwargs \<Rightarrow> (str \<times> json) list option handler" where
  "Schedule_call e kw =
     (case (str_arg kw ''project'', str_arg kw ''spider'', opt_str_arg kw ''version'',
            str_arg kw ''jobid'', num_arg kw ''priority'', str_list_arg kw ''setting'') of
        (Some project, Some spider, Some version, Some jobid, Some priority, Some setting) \<Rightarrow>
          Schedule_body e project spider version jobid priority setting
      | _ \<Rightarrow> raise (PyExc ''TypeError''))"

definition Schedule_params :: "env \<Rightarrow> pspec list" where
  "Schedule_params e =
     [req ''project'', req ''spider'',
      (opt ''_version'')\<lparr>dest := ''version''\<rparr>,
      (opt ''jobid'')\<lparr>default_value := VStr (uuid_hex e)\<rparr>,
      (opt ''priority'')\<lparr>default_value := VNum (IntNum 0), type := TFloat\<rparr>,
      (opt ''setting'')\<lparr>default_value := VList [], multiple := True\<rparr>]"

definition Schedule_render_POST :: "env \<Rightarrow> (str \<times> json) list option handler" where
  "Schedule_render_POST e = decorate e (Schedule_params e) (Schedule_call e) Map.empty"

subsection \<open>Add version\<close>

text \<open>Modelled from the spec: the egg store's \<^verbatim>\<open>put\<close> stores the archive under project and version.\<close>

definition eggstorage_put :: "bytes \<Rightarrow> str \<Rightarrow> str \<Rightarrow> root \<Rightarrow> root" where
  "eggstorage_put egg project version s = s\<lparr>eggs := (eggs s)((project, version) \<mapsto> egg)\<rparr>"

definition AddVersion_body :: "env \<Rightarrow> str \<Rightarrow> str \<Rightarrow> bytes \<Rightarrow> (str \<times> json) list option handler" where
  "AddVersion_body e project version egg tx s =
     (if \<not> is_zipfile e egg then
        raise (Error http_OK
                 ''egg is not a ZIP file (if using curl, use egg=@path not egg=path)'') tx s
      else
        (let s1 = eggstorage_put egg project version s;
             s2 = update_projects e s1
         in case SpiderList_set e project (Some version) s2 of
              (Inl x, s3) \<Rightarrow> raise x tx s3
            | (Inr spiders, s3) \<Rightarrow>
                return (Some [(''project'', JStr project), (''version'', JStr version),
                              (''spiders'', JInt (int (length spiders)))]) tx s3))"

definition AddVersion_call :: "env \<Rightarrow> kwargs \<Rightarrow> (str \<times> json) list option handler" where
  "AddVersion_call e kw =
     (case (str_arg kw ''project'', str_arg kw ''version'', bytes_arg kw ''egg'') of
        (Some project, Some version, Some egg) \<Rightarrow> AddVersion_body e project version egg
      | _ \<Rightarrow> raise (PyExc ''TypeError''))"

definition AddVersion_render_POST :: "env \<Rightarrow> (str \<times> json) list option handler" where
  "AddVersion_render_POST e =
     decorate e [req ''project'', req ''version'', (req ''egg'')\<lparr>type := TBytes\<rparr>]
       (AddVersion_call e) Map.empty"

section \<open>An environment and states for the examples\<close>

text \<open>
  A listing command that prints two spider names, a file system without files, and line
  splitting at the line feed (enough for that output).
\<close>

definition env0 :: env where
  "env0 = \<lparr>debug = False, node_name = ''node1'', win32 = False, uuid_hex = ''0a1b2c'',
     now = 1000, unicode_error = (\<lambda>b. ''invalid utf-8''),
     to_float = (\<lambda>b. Inl ''could not convert''), exc_text = (\<lambda>x. ''failed''),
     json_encode = (\<lambda>j. ''{}''), format_exc = (\<lambda>x. ''Traceback''),
     is_zipfile = (\<lambda>b. startswith b ''PK''),
     splitlines = (\<lambda>t. filter (\<lambda>l. l \<noteq> []) (split t (CHR 0x0A))),
     popen_list = (\<lambda>g p v. (0, ''spider1'' @ [CHR 0x0A] @ ''spider2'' @ [CHR 0x0A], [])),
     getcwd = ''/srv'', path_exists = (\<lambda>p. False), path_isfile = (\<lambda>p. False),
     read_file = (\<lambda>p. Inl (PyExc ''FileNotFoundError'')),
     update_projects = (\<lambda>s. s)\<rparr>"

text \<open>A cache that holds, for project \<open>p\<close>, the unspecified version and the versions 1 and 3.\<close>

definition cache0 :: spider_cache where
  "cache0 = [''p'' \<mapsto> [None \<mapsto> [''old''], Some ''1'' \<mapsto> [''one''], Some ''3'' \<mapsto> [''three'']]]"

definition root0 :: root where
  "root0 = \<lparr>queues = [(''p'', [])], processes = [], finished = [], eggs = Map.empty,
     cache = cache0, signals = []\<rparr>"

text \<open>
  The same environment with one file outside the results root, \<^verbatim>\<open>/srv/secret\<close>, reached as
  \<^verbatim>\<open>results/../secret\<close>.
\<close>

definition env_secret :: env where
  "env_secret = env0\<lparr>
     path_exists := (\<lambda>p. p = ''results/../secret'' \<or> p = ''/srv/secret''),
     path_isfile := (\<lambda>p. p = ''results/../secret'' \<or> p = ''/srv/secret''),
     read_file := (\<lambda>p. if p = ''results/../secret'' \<or> p = ''/srv/secret'' then Inr ''hidden''
                         else Inl (PyExc ''FileNotFoundError''))\<rparr>"

text \<open>
  The same environment with one file inside the results root,
  \<^verbatim>\<open>/srv/results/myproj/job1.json\<close>, which the path \<^verbatim>\<open>results//myproj/job1.json\<close> also names;
  there is no \<^verbatim>\<open>/myproj\<close>.
\<close>

definition env_nested :: env where
  "env_nested = env0\<lparr>
     path_exists := (\<lambda>p. p = ''results//myproj/job1.json'' \<or> p = ''/srv/results/myproj/job1.json''),
     path_isfile := (\<lambda>p. p = ''results//myproj/job1.json'' \<or> p = ''/srv/results/myproj/job1.json''),
     read_file := (\<lambda>p. if p = ''results//myproj/job1.json'' \<or> p = ''/srv/results/myproj/job1.json''
                         then Inr ''[1]'' else Inl (PyExc ''FileNotFoundError''))\<rparr>"

text \<open>
  The same environment with two result files of project \<open>p\<close>: \<^verbatim>\<open>job1.json\<close> and the named
  result \<^verbatim>\<open>local-n-7-result.json\<close>, twelve bytes each.
\<close>

definition env_results :: env where
  "env_results = env0\<lparr>
     path_exists := (\<lambda>p. p \<in> {''results/p/job1.json'', ''/srv/results/p/job1.json'',
                          ''results/p/local-n-7-result.json''}),
     path_isfile := (\<lambda>p. p \<in> {''results/p/job1.json'', ''/srv/results/p/job1.json'',
                          ''results/p/local-n-7-result.json''}),
     read_file := (\<lambda>p. if p \<in> {''results/p/job1.json'', ''/srv/results/p/job1.json'',
                                 ''results/p/local-n-7-result.json''}
                         then Inr ''[1, 2, 3, 4]'' else Inl (PyExc ''FileNotFoundError''))\<rparr>"

text \<open>
  A daemon with the projects \<open>p\<close> and \<open>q\<close>: job \<open>j1\<close> is both running and finished, \<open>j2\<close> is
  both running and pending, \<open>j3\<close> is pending only; version 1 of \<open>p\<close> is in the egg store.
\<close>

definition proc :: "str \<Rightarrow> str \<Rightarrow> nat \<Rightarrow> nat option \<Rightarrow> process" where
  "proc project job pid ended =
     \<lparr>proc_project = project, proc_spider = ''spider1'', proc_job = job, proc_pid = pid,
      proc_start_time = 900, proc_end_time = ended\<rparr>"

definition msg :: "str \<Rightarrow> message" where
  "msg job = \<lparr>msg_name = ''spider1'', msg_job = job, msg_priority = IntNum 0,
     msg_settings = [], msg_args = []\<rparr>"

definition root1 :: root where
  "root1 = \<lparr>queues = [(''p'', [msg ''j3'', msg ''j2'']), (''q'', [])],
     processes = [(0, proc ''p'' ''j1'' 41 None), (1, proc ''p'' ''j2'' 42 None)],
     finished = [proc ''p'' ''j1'' 40 (Some 950)],
     eggs = [(''p'', ''1'') \<mapsto> ''PK''],
     cache = cache0, signals = []\<rparr>"

section \<open>Verified properties\<close>

subsection \<open>Requests, headers and evaluation\<close>

lemma startswith_append: "startswith p (a @ b) \<Longrightarrow> startswith p a"
  by (induction p a rule: startswith.induct) auto

lemma startswith_refl: "startswith p p"
  by (induction p) auto

lemma code_setResponseCode: "code (setResponseCode c tx) = c"
  by (simp add: setResponseCode_def)

lemma code_setHeader: "code (setHeader n v tx) = code tx"
  by (simp add: setHeader_def)

lemma header_setHeader:
  "map_of (headers (setHeader n v tx)) n' = (if n' = n then Some v else map_of (headers tx) n')"
  by (simp add: setHeader_def update_conv')

lemma code_request: "code (request a) = http_OK"
  by (simp add: request_def http_OK_def)

lemmas eval_param = decorate_def param_def bind_param_def req_def opt_def convert_def decode_def
  raise_def return_def str_arg_def opt_str_arg_def bytes_arg_def num_arg_def str_list_arg_def

lemmas eval_path = abspath_def normpath_def os_path_join_def join_step_def split_def Let_def

lemma str_of_nat_12: "str_of_nat 12 = ''12''" "str_of_nat 1 = ''1''" "str_of_nat 10 = ''10''"
  by code_simp+

subsection \<open>The spider-list cache\<close>

lemma cached_inner_pop:
  "cached (inner_pop c p k) p' v' = (if p' = p \<and> v' = k then None else cached c p' v')"
  by (auto simp: cached_def inner_pop_def cache_getitem_def split: option.splits)

lemma cached_inner_setitem:
  "cached (inner_setitem c p k x) p' v' = (if p' = p \<and> v' = k then Some x else cached c p' v')"
  by (auto simp: cached_def inner_setitem_def cache_getitem_def split: option.splits)

lemma cached_delete:
  "cached (SpiderList_delete p v c) p' v' =
     (if p' = p \<and> (v = None \<or> v' = None \<or> v' = v) then None else cached c p' v')"
  by (auto simp: SpiderList_delete_def cached_inner_pop split: option.splits)
     (auto simp: cached_def)

lemma SpiderList_set_cache:
  assumes "SpiderList_set e p v s = (Inr spiders, s')"
  shows "cache s' = inner_setitem (inner_pop (cache s) p None) p v spiders"
  using assms
  by (auto simp: SpiderList_set_def Let_def split: prod.splits if_splits sum.splits)

text \<open>
  Claim C6. A successful \<open>set(p, v)\<close> leaves the cache as evicting the unspecified-version
  entry of \<open>p\<close> and then writing the entry \<open>(p, v)\<close> leaves it: \<open>(p, v)\<close> holds the computed
  list, the unspecified-version entry is gone unless it is the one written, and every other
  entry is as before. \<open>delete(p)\<close> leaves no entry of \<open>p\<close> and touches no other project.
  \<open>delete(p, w)\<close> removes the entry \<open>(p, w)\<close> and the unspecified-version entry of \<open>p\<close>, and
  leaves every other explicit version of \<open>p\<close> and every other project as it was.
\<close>

theorem spider_list_ambiguity_rule:
  "(SpiderList_set e p v s = (Inr spiders, s') \<longrightarrow>
      cache s' = inner_setitem (inner_pop (cache s) p None) p v spiders \<and>
      cached (cache s') p v = Some spiders \<and>
      (v \<noteq> None \<longrightarrow> cached (cache s') p None = None) \<and>
      (\<forall>v'. v' \<noteq> v \<and> v' \<noteq> None \<longrightarrow> cached (cache s') p v' = cached (cache s) p v') \<and>
      (\<forall>p' v'. p' \<noteq> p \<longrightarrow> cached (cache s') p' v' = cached (cache s) p' v')) \<and>
   (\<forall>v'. cached (SpiderList_delete p None c) p v' = None) \<and>
   (\<forall>p' v'. p' \<noteq> p \<longrightarrow> cached (SpiderList_delete p None c) p' v' = cached c p' v') \<and>
   cached (SpiderList_delete p (Some w) c) p (Some w) = None \<and>
   cached (SpiderList_delete p (Some w) c) p None = None \<and>
   (\<forall>w'. w' \<noteq> w \<longrightarrow> cached (SpiderList_delete p (Some w) c) p (Some w') = cached c p (Some w')) \<and>
   (\<forall>p' v'. p' \<noteq> p \<longrightarrow> cached (SpiderList_delete p (Some w) c) p' v' = cached c p' v')"
proof -
  have "cached (cache s') p v = Some spiders \<and>
      (v \<noteq> None \<longrightarrow> cached (cache s') p None = None) \<and>
      (\<forall>v'. v' \<noteq> v \<and> v' \<noteq> None \<longrightarrow> cached (cache s') p v' = cached (cache s) p v') \<and>
      (\<forall>p' v'. p' \<noteq> p \<longrightarrow> cached (cache s') p' v' = cached (cache s) p' v')"
    if "cache s' = inner_setitem (inner_pop (cache s) p None) p v spiders"
    using that by (simp add: cached_inner_setitem cached_inner_pop)
  then show ?thesis
    using SpiderList_set_cache [of e p v s spiders s']
    by (simp add: cached_delete)
qed

lemma set0: "SpiderList_set env0 ''p'' (Some ''2'') root0 =
   (Inr [''spider1'', ''spider2''],
    root0\<lparr>cache := inner_setitem (inner_pop cache0 ''p'' None) ''p'' (Some ''2'') [''spider1'', ''spider2'']\<rparr>)"
  by (simp add: SpiderList_set_def env0_def root0_def decode_def split_def Let_def)

theorem spider_list_ambiguity_rule_witness:
  "fst (SpiderList_set env0 ''p'' (Some ''2'') root0) = Inr [''spider1'', ''spider2''] \<and>
   cached (cache (snd (SpiderList_set env0 ''p'' (Some ''2'') root0))) ''p'' (Some ''2'')
     = Some [''spider1'', ''spider2''] \<and>
   cached cache0 ''p'' None = Some [''old''] \<and>
   cached (cache (snd (SpiderList_set env0 ''p'' (Some ''2'') root0))) ''p'' None = None \<and>
   cached (cache (snd (SpiderList_set env0 ''p'' (Some ''2'') root0))) ''p'' (Some ''1'')
     = Some [''one''] \<and>
   cached (SpiderList_delete ''p'' None cache0) ''p'' (Some ''3'') = None \<and>
   cached (SpiderList_delete ''p'' (Some ''1'') cache0) ''p'' (Some ''1'') = None \<and>
   cached (SpiderList_delete ''p'' (Some ''1'') cache0) ''p'' None = None \<and>
   cached (SpiderList_delete ''p'' (Some ''1'') cache0) ''p'' (Some ''3'') = Some [''three'']"
proof -
  have c0: "cached cache0 ''p'' None = Some [''old'']"
    "cached cache0 ''p'' (Some ''1'') = Some [''one'']"
    "cached cache0 ''p'' (Some ''3'') = Some [''three'']"
    by (simp_all add: cached_def cache0_def)
  have r0: "cache root0 = cache0"
    by (simp add: root0_def)
  show ?thesis
    using spider_list_ambiguity_rule [of env0 "''p''" "Some ''2''" root0
        "[''spider1'', ''spider2'']" "snd (SpiderList_set env0 ''p'' (Some ''2'') root0)"
        cache0 "''1''"]
    by (simp add: set0 c0 r0)
qed

subsection \<open>Result download: the order of the checks\<close>

lemma SpiderDownloadResult_bound:
  "utf8_valid project \<Longrightarrow> utf8_valid job_id \<Longrightarrow>
   SpiderDownloadResult_render_GET e (request [(''project'', [project]), (''job_id'', [job_id])]) s =
     SpiderDownloadResult_body e project job_id (request []) s"
  by (simp add: SpiderDownloadResult_render_GET_def SpiderDownloadResult_call_def eval_param
      request_def)

lemma inside_startswith: "inside_results_root e p \<Longrightarrow> startswith p (abspath e ''results'')"
  by (auto simp: inside_results_root_def startswith_refl dest: startswith_append)

lemma getcwd_env0: "getcwd env0 = ''/srv''"
  by (simp add: env0_def)

lemma abspath_secret:
  "abspath env0 (os_path_join ''results'' [''..'', ''secret'']) = ''/srv/secret''"
  "abspath env0 ''results'' = ''/srv/results''"
  by (simp_all add: eval_path getcwd_env0)

lemma abspath_env_secret: "abspath env_secret p = abspath env0 p"
  by (simp add: abspath_def env_secret_def)

lemma secret_outside:
  "\<not> inside_results_root env0 (abspath env0 (os_path_join ''results'' [''..'', ''secret'']))"
  by (simp add: inside_results_root_def abspath_secret)

lemma abspath_env_nested: "abspath env_nested p = abspath env0 p"
  by (simp add: abspath_def env_nested_def)

lemma abspath_nested:
  "abspath env0 (os_path_join ''results'' [''/myproj'', ''job1.json'']) = ''/myproj/job1.json''"
  "abspath env0 (''results/'' @ ''/myproj'' @ ''/'' @ ''job1.json'') = ''/srv/results/myproj/job1.json''"
  by (simp_all add: eval_path getcwd_env0)

text \<open>
  Claim C9 as stated fails: a 403 does not tell that the target outside the results root
  exists. The request for project \<^verbatim>\<open>/myproj\<close> and job id \<^verbatim>\<open>job1.json\<close> is tested for existence
  as \<^verbatim>\<open>results//myproj/job1.json\<close>, a file inside the results root, and for containment as
  \<^verbatim>\<open>os.path.join("results", "/myproj", "job1.json")\<close>, which is \<^verbatim>\<open>/myproj/job1.json\<close>: the answer is
  403 although nothing exists at \<^verbatim>\<open>/myproj/job1.json\<close>.
\<close>

theorem out_of_root_target_missing_counterexample:
  "code (fst (snd (RawContentResource_render (SpiderDownloadResult_render_GET env_nested)
       (request [(''project'', [''/myproj'']), (''job_id'', [''job1.json''])]) root0))) =
     http_FORBIDDEN \<and>
   abspath env_nested (os_path_join ''results'' [''/myproj'', ''job1.json'']) = ''/myproj/job1.json'' \<and>
   \<not> inside_results_root env_nested ''/myproj/job1.json'' \<and>
   \<not> path_exists env_nested ''/myproj/job1.json'' \<and>
   abspath env_nested (''results/'' @ ''/myproj'' @ ''/'' @ ''job1.json'') =
     ''/srv/results/myproj/job1.json'' \<and>
   inside_results_root env_nested ''/srv/results/myproj/job1.json''"
proof -
  have o: "\<not> startswith (abspath env_nested (os_path_join ''results'' [''/myproj'', ''job1.json'']))
             (abspath env_nested ''results'')"
    by (simp add: abspath_nested abspath_secret abspath_env_nested)
  have y: "path_exists env_nested (''results/'' @ ''/myproj'' @ ''/'' @ ''job1.json'') \<and>
           path_isfile env_nested (''results/'' @ ''/myproj'' @ ''/'' @ ''job1.json'')"
    by (simp add: env_nested_def)
  have b: "SpiderDownloadResult_body env_nested ''/myproj'' ''job1.json'' (request []) root0 =
     (Inr ''File not found'', setResponseCode http_FORBIDDEN (request []), root0)"
    using o y by (simp add: SpiderDownloadResult_body_def Let_def)
  have c: "code (fst (snd (RawContentResource_render (SpiderDownloadResult_render_GET env_nested)
       (request [(''project'', [''/myproj'']), (''job_id'', [''job1.json''])]) root0))) =
     http_FORBIDDEN"
    by (simp add: RawContentResource_render_def SpiderDownloadResult_bound b code_setResponseCode)
  have i: "\<not> inside_results_root env_nested ''/myproj/job1.json''"
    "inside_results_root env_nested ''/srv/results/myproj/job1.json''"
    by (simp_all add: inside_results_root_def abspath_env_nested abspath_secret)
  have n: "\<not> path_exists env_nested ''/myproj/job1.json''"
    by (simp add: env_nested_def)
  show ?thesis
    by (intro conjI c i n abspath_nested [unfolded abspath_env_nested [symmetric]])
qed

text \<open>
  Claim C9, amended. In the result download the existence test on the path as requested,
  \<^verbatim>\<open>results/<project>/<job id>\<close>, comes before the containment test: a request whose path as
  requested does not exist or is not a file gets 404, whatever it resolves to; a 403 is returned
  only when the path as requested exists and is a file and the absolute path of the joined path
  is not inside the results root, and its body is the 404 body; so for a request that fails the
  containment test the status is 403 exactly when the path as requested exists as a file, and
  404 otherwise, with the same body.
\<close>

theorem existence_check_precedes_containment:
  assumes "code tx = http_OK"
  shows "(\<not> (path_exists e (''results/'' @ project @ ''/'' @ job_id) \<and>
             path_isfile e (''results/'' @ project @ ''/'' @ job_id)) \<longrightarrow>
            SpiderDownloadResult_body e project job_id tx s =
              (Inr ''File not found'', setResponseCode http_NOT_FOUND tx, s)) \<and>
         (code (fst (snd (SpiderDownloadResult_body e project job_id tx s))) = http_FORBIDDEN \<longrightarrow>
            path_exists e (''results/'' @ project @ ''/'' @ job_id) \<and>
            path_isfile e (''results/'' @ project @ ''/'' @ job_id) \<and>
            \<not> inside_results_root e (abspath e (os_path_join ''results'' [project, job_id])) \<and>
            fst (SpiderDownloadResult_body e project job_id tx s) = Inr ''File not found'') \<and>
         (\<not> startswith (abspath e (os_path_join ''results'' [project, job_id])) (abspath e ''results'') \<longrightarrow>
            fst (SpiderDownloadResult_body e project job_id tx s) = Inr ''File not found'' \<and>
            code (fst (snd (SpiderDownloadResult_body e project job_id tx s))) =
              (if path_exists e (''results/'' @ project @ ''/'' @ job_id) \<and>
                  path_isfile e (''results/'' @ project @ ''/'' @ job_id)
               then http_FORBIDDEN else http_NOT_FOUND))"
  using assms
  by (auto simp: SpiderDownloadResult_body_def Let_def code_setResponseCode code_setHeader
        http_OK_def http_FORBIDDEN_def http_NOT_FOUND_def http_INTERNAL_SERVER_ERROR_def
      dest: inside_startswith split: sum.splits)

theorem existence_check_precedes_containment_witness:
  "code (request []) = http_OK \<and>
   \<not> inside_results_root env0 (abspath env0 (os_path_join ''results'' [''..'', ''secret''])) \<and>
   SpiderDownloadResult_body env0 ''..'' ''secret'' (request []) root0 =
     (Inr ''File not found'', setResponseCode http_NOT_FOUND (request []), root0) \<and>
   fst (SpiderDownloadResult_body env_secret ''..'' ''secret'' (request []) root0) =
     Inr ''File not found'' \<and>
   code (fst (snd (SpiderDownloadResult_body env_secret ''..'' ''secret'' (request []) root0))) =
     http_FORBIDDEN"
proof -
  have n: "\<not> (path_exists env0 (''results/'' @ ''..'' @ ''/'' @ ''secret'') \<and>
               path_isfile env0 (''results/'' @ ''..'' @ ''/'' @ ''secret''))"
    by (simp add: env0_def)
  have o: "\<not> startswith (abspath env_secret (os_path_join ''results'' [''..'', ''secret'']))
             (abspath env_secret ''results'')"
    by (simp add: abspath_secret abspath_env_secret)
  have y: "path_exists env_secret (''results/'' @ ''..'' @ ''/'' @ ''secret'') \<and>
           path_isfile env_secret (''results/'' @ ''..'' @ ''/'' @ ''secret'')"
    by (simp add: env_secret_def)
  note t0 = existence_check_precedes_containment
    [OF code_request, of env0 "''..''" "''secret''" "[]" root0]
  note t1 = existence_check_precedes_containment
    [OF code_request, of env_secret "''..''" "''secret''" "[]" root0]
  have a: "SpiderDownloadResult_body env0 ''..'' ''secret'' (request []) root0 =
     (Inr ''File not found'', setResponseCode http_NOT_FOUND (request []), root0)"
    by (rule t0 [THEN conjunct1, THEN mp, OF n])
  note b = t1 [THEN conjunct2, THEN conjunct2, THEN mp, OF o]
  have b2: "code (fst (snd (SpiderDownloadResult_body env_secret ''..'' ''secret''
      (request []) root0))) = http_FORBIDDEN"
    using b [THEN conjunct2] y by (simp only: simp_thms if_True)
  show ?thesis
    by (intro conjI code_request secret_outside a b [THEN conjunct1] b2)
qed

subsection \<open>Result download: paths outside the results root\<close>




subsection \<open>The Content-Length of the downloads\<close>

lemma SpiderResults_bound:
  "utf8_valid project \<Longrightarrow> utf8_valid configID \<Longrightarrow> utf8_valid configName \<Longrightarrow>
   SpiderResults_render_GET e
     (request [(''project'', [project]), (''configID'', [configID]), (''configName'', [configName])]) s =
     SpiderResults_body e project configID configName (request []) s"
  by (simp add: SpiderResults_render_GET_def SpiderResults_call_def eval_param request_def)

text \<open>
  Claim C8, amended. On its success path the named result download sets \<^verbatim>\<open>Content-Length\<close> from
  the length of the content it returns; it is the result download
  (\<^verbatim>\<open>SpiderDownloadResult\<close>) whose success path sets it from the length of the job id string.
\<close>

theorem content_length_of_downloads:
  "(read_file e (''results/'' @ project @ ''/local-'' @ configName @ ''-'' @ configID @
        ''-result.json'') = Inr content \<longrightarrow>
      fst (SpiderResults_body e project configID configName tx s) = Inr content \<and>
      map_of (headers (fst (snd (SpiderResults_body e project configID configName tx s))))
        ''Content-Length'' = Some (str_of_nat (length content))) \<and>
   (path_exists e (''results/'' @ project @ ''/'' @ job_id) \<and>
    path_isfile e (''results/'' @ project @ ''/'' @ job_id) \<and>
    startswith (abspath e (os_path_join ''results'' [project, job_id])) (abspath e ''results'') \<and>
    path_exists e (abspath e (os_path_join ''results'' [project, job_id])) \<and>
    path_isfile e (abspath e (os_path_join ''results'' [project, job_id])) \<and>
    read_file e (os_path_join ''results'' [project, job_id]) = Inr content \<longrightarrow>
      fst (SpiderDownloadResult_body e project job_id tx s) = Inr content \<and>
      map_of (headers (fst (snd (SpiderDownloadResult_body e project job_id tx s))))
        ''Content-Length'' = Some (str_of_nat (str_len job_id)))"
  by (simp add: SpiderResults_body_def SpiderDownloadResult_body_def Let_def header_setHeader)

theorem content_length_of_downloads_witness:
  "read_file env_results
     (''results/'' @ ''p'' @ ''/local-'' @ ''n'' @ ''-'' @ ''7'' @ ''-result.json'') =
     Inr ''[1, 2, 3, 4]'' \<and>
   map_of (headers (fst (snd (SpiderResults_body env_results ''p'' ''7'' ''n'' (request []) root0))))
     ''Content-Length'' = Some (str_of_nat (length ''[1, 2, 3, 4]'')) \<and>
   str_of_nat (length ''[1, 2, 3, 4]'') = ''12'' \<and>
   fst (SpiderDownloadResult_body env_results ''p'' ''job1.json'' (request []) root0) =
     Inr ''[1, 2, 3, 4]'' \<and>
   map_of (headers (fst (snd (SpiderDownloadResult_body env_results ''p'' ''job1.json''
     (request []) root0)))) ''Content-Length'' = Some (str_of_nat (str_len ''job1.json'')) \<and>
   str_of_nat (str_len ''job1.json'') = ''9''"
proof -
  have l: "str_of_nat (length ''[1, 2, 3, 4]'') = ''12''" "str_of_nat (str_len ''job1.json'') = ''9''"
    by code_simp+
  have a: "abspath env_results p = abspath env0 p" for p
    by (simp add: abspath_def env_results_def)
  have j: "os_path_join ''results'' [''p'', ''job1.json''] = ''results/p/job1.json''"
    "abspath env0 ''results/p/job1.json'' = ''/srv/results/p/job1.json''"
    by (simp_all add: eval_path getcwd_env0)
  have n: "read_file env_results
     (''results/'' @ ''p'' @ ''/local-'' @ ''n'' @ ''-'' @ ''7'' @ ''-result.json'') =
     Inr ''[1, 2, 3, 4]''"
    by (simp add: env_results_def)
  have d: "path_exists env_results (''results/'' @ ''p'' @ ''/'' @ ''job1.json'') \<and>
    path_isfile env_results (''results/'' @ ''p'' @ ''/'' @ ''job1.json'') \<and>
    startswith (abspath env_results (os_path_join ''results'' [''p'', ''job1.json'']))
      (abspath env_results ''results'') \<and>
    path_exists env_results (abspath env_results (os_path_join ''results'' [''p'', ''job1.json''])) \<and>
    path_isfile env_results (abspath env_results (os_path_join ''results'' [''p'', ''job1.json''])) \<and>
    read_file env_results (os_path_join ''results'' [''p'', ''job1.json'']) = Inr ''[1, 2, 3, 4]''"
    by (simp add: a j abspath_secret) (simp add: env_results_def)
  note t = content_length_of_downloads
    [of env_results "''p''" "''n''" "''7''" "''[1, 2, 3, 4]''" "request []" root0 "''job1.json''"]
  note t1 = t [THEN conjunct1, THEN mp, OF n]
  note t2 = t [THEN conjunct2, THEN mp, OF d]
  show ?thesis
    by (intro conjI n t1 [THEN conjunct2] l t2 [THEN conjunct1] t2 [THEN conjunct2])
qed

text \<open>
  Claim C8 as stated fails: the named result download of a twelve-byte file answers with
  \<^verbatim>\<open>Content-Length: 12\<close>, the length of the content, while the identifiers \<^verbatim>\<open>7\<close> and \<^verbatim>\<open>n\<close> have
  length 1 and the attachment name length 10.
\<close>

lemma read_named: "read_file env_results
    (''results/'' @ ''p'' @ ''/local-'' @ ''n'' @ ''-'' @ ''7'' @ ''-result.json'') = Inr ''[1, 2, 3, 4]''"
  by (simp add: env_results_def)

theorem named_result_content_length_counterexample:
  "fst (SpiderResults_render env_results (SpiderResults_render_GET env_results)
       (request [(''project'', [''p'']), (''configID'', [''7'']), (''configName'', [''n''])]) root0) =
     Inr ''[1, 2, 3, 4]'' \<and>
   map_of (headers (fst (snd (SpiderResults_render env_results (SpiderResults_render_GET env_results)
       (request [(''project'', [''p'']), (''configID'', [''7'']), (''configName'', [''n''])]) root0))))
     ''Content-Length'' = Some ''12'' \<and>
   str_of_nat (length ''[1, 2, 3, 4]'') = ''12'' \<and>
   str_of_nat (str_len ''7'') = ''1'' \<and>
   str_of_nat (str_len ''n'') = ''1'' \<and>
   str_of_nat (str_len ''n-7-result'') = ''10''"
proof -
  have l: "str_of_nat (length ''[1, 2, 3, 4]'') = ''12''" "str_of_nat (str_len ''7'') = ''1''"
    "str_of_nat (str_len ''n'') = ''1''" "str_of_nat (str_len ''n-7-result'') = ''10''"
    by code_simp+
  have b: "SpiderResults_render_GET env_results
       (request [(''project'', [''p'']), (''configID'', [''7'']), (''configName'', [''n''])]) root0 =
     SpiderResults_body env_results ''p'' ''7'' ''n'' (request []) root0"
    by (simp add: SpiderResults_bound)
  have r: "fst (SpiderResults_body env_results ''p'' ''7'' ''n'' (request []) root0) = Inr ''[1, 2, 3, 4]''"
    "map_of (headers (fst (snd (SpiderResults_body env_results ''p'' ''7'' ''n'' (request []) root0))))
        ''Content-Length'' = Some ''12''"
    using read_named l(1)
    by (simp_all add: SpiderResults_body_def header_setHeader)
  obtain tx1 where p: "SpiderResults_body env_results ''p'' ''7'' ''n'' (request []) root0 =
      (Inr ''[1, 2, 3, 4]'', tx1, root0)"
    using read_named by (simp add: SpiderResults_body_def)
  show ?thesis
    using r l by (simp add: SpiderResults_render_def b p)
qed

subsection \<open>Status\<close>







lemma root1_sel:
  "finished root1 = [proc ''p'' ''j1'' 40 (Some 950)]"
  "processes root1 = [(0, proc ''p'' ''j1'' 41 None), (1, proc ''p'' ''j2'' 42 None)]"
  "queues root1 = [(''p'', [msg ''j3'', msg ''j2'']), (''q'', [])]"
  by (simp_all add: root1_def)

lemma proc_sel: "proc_project (proc p j n t) = p" "proc_job (proc p j n t) = j"
  "proc_pid (proc p j n t) = n"
  by (simp_all add: proc_def)

lemma msg_sel: "msg_job (msg j) = j"
  by (simp add: msg_def)


subsection \<open>Cancel\<close>

lemma cancel_loop_result:
  "cancel_loop e project job sig items (prev, s) =
     ((if \<exists>kp\<in>set items. proc_project (snd kp) = project \<and> proc_job (snd kp) = job
       then JStr ''running'' else prev),
      s\<lparr>signals := signals s @
           map (\<lambda>kp. (proc_pid (snd kp), sig))
             (filter (\<lambda>kp. proc_project (snd kp) = project \<and> proc_job (snd kp) = job) items),
        processes := filter (\<lambda>kp. fst kp \<notin> fst ` {kp \<in> set items.
             proc_project (snd kp) = project \<and> proc_job (snd kp) = job}) (processes s),
        finished := finished s @
           map (\<lambda>kp. (snd kp)\<lparr>proc_end_time := Some (now e)\<rparr>)
             (filter (\<lambda>kp. proc_project (snd kp) = project \<and> proc_job (snd kp) = job) items)\<rparr>)"
proof (induction items arbitrary: prev s)
  case Nil
  then show ?case by simp
next
  case (Cons a items)
  obtain key p where a: "a = (key, p)" by (cases a)
  show ?case
  proof (cases "proc_project p = project \<and> proc_job p = job")
    case True
    have f: "filter (\<lambda>kp. fst kp \<notin> fst ` {kp \<in> set items. proc_project (snd kp) = project \<and> proc_job (snd kp) = job})
               (AList.delete key xs) =
             filter (\<lambda>kp. fst kp \<notin> fst ` {kp. (kp = (key, p) \<or> kp \<in> set items) \<and>
                 proc_project (snd kp) = project \<and> proc_job (snd kp) = job}) xs" for xs
      using True by (induction xs) (auto simp: image_iff)
    show ?thesis
      using True by (simp add: a Cons.IH Let_def signalProcess_def finished_add_def f)
  next
    case False
    have f: "{kp. (kp = (key, p) \<or> kp \<in> set items) \<and>
                 proc_project (snd kp) = project \<and> proc_job (snd kp) = job} =
             {kp \<in> set items. proc_project (snd kp) = project \<and> proc_job (snd kp) = job}"
      using False by auto
    show ?thesis
      using False by (auto simp add: a Cons.IH f)
  qed
qed

lemma distinct_key_filter:
  assumes "distinct (map fst items)"
  shows "filter (\<lambda>kp. fst kp \<notin> fst ` {kp \<in> set items. M (snd kp)}) items =
         filter (\<lambda>kp. \<not> M (snd kp)) items"
proof (rule filter_cong [OF refl])
  fix kp assume "kp \<in> set items"
  then show "(fst kp \<notin> fst ` {kp \<in> set items. M (snd kp)}) = (\<not> M (snd kp))"
    using assms eq_key_imp_eq_value [of items "fst kp" "snd kp"]
    by (auto simp: image_iff)
qed

lemma map_snd_filter:
  "map (\<lambda>kp. f (snd kp)) (filter (\<lambda>kp. M (snd kp)) items) = map f (filter M (map snd items))"
  by (induction items) auto

lemma cancel_loop_distinct:
  assumes "distinct (map fst (processes s))"
  shows "cancel_loop e project job sig (processes s) (prev, s) =
     ((if \<exists>p\<in>set (map snd (processes s)). proc_project p = project \<and> proc_job p = job
       then JStr ''running'' else prev),
      s\<lparr>signals := signals s @
           map (\<lambda>p. (proc_pid p, sig))
             (filter (\<lambda>p. proc_project p = project \<and> proc_job p = job) (map snd (processes s))),
        processes :=
          filter (\<lambda>kp. \<not> (proc_project (snd kp) = project \<and> proc_job (snd kp) = job))
            (processes s),
        finished := finished s @
           map (\<lambda>p. p\<lparr>proc_end_time := Some (now e)\<rparr>)
             (filter (\<lambda>p. proc_project p = project \<and> proc_job p = job) (map snd (processes s)))\<rparr>)"
proof -
  let ?M = "\<lambda>p. proc_project p = project \<and> proc_job p = job"
  have 1: "filter (\<lambda>kp. fst kp \<notin> fst ` {kp \<in> set (processes s). ?M (snd kp)}) (processes s) =
           filter (\<lambda>kp. \<not> ?M (snd kp)) (processes s)"
    by (rule distinct_key_filter [OF assms])
  have 2: "map (\<lambda>kp. (proc_pid (snd kp), sig)) (filter (\<lambda>kp. ?M (snd kp)) (processes s)) =
           map (\<lambda>p. (proc_pid p, sig)) (filter ?M (map snd (processes s)))"
    by (rule map_snd_filter)
  have 3: "map (\<lambda>kp. (snd kp)\<lparr>proc_end_time := Some (now e)\<rparr>)
             (filter (\<lambda>kp. ?M (snd kp)) (processes s)) =
           map (\<lambda>p. p\<lparr>proc_end_time := Some (now e)\<rparr>) (filter ?M (map snd (processes s)))"
    by (rule map_snd_filter)
  have 4: "(\<exists>kp\<in>set (processes s). ?M (snd kp)) = (\<exists>p\<in>set (map snd (processes s)). ?M p)"
    by simp
  show ?thesis
    unfolding cancel_loop_result 1 2 3 4 ..
qed

lemma Cancel_bound:
  "utf8_valid project \<Longrightarrow> utf8_valid job \<Longrightarrow>
   Cancel_render_POST e (request [(''project'', [project]), (''job'', [job])]) s =
     Cancel_body e project job (if win32 e then ''BREAK'' else ''INT'') (request []) s"
  by (simp add: Cancel_render_POST_def Cancel_call_def eval_param request_def)

lemma now_env0: "now env0 = 1000" "win32 env0 = False"
  by (simp_all add: env0_def)

lemma proc_ended: "(proc p j n t)\<lparr>proc_end_time := t'\<rparr> = proc p j n t'"
  by (simp add: proc_def)

lemma cancel_j2:
  "Cancel_body env0 ''p'' ''j2'' ''INT'' (request []) root1 =
     (Inr (Some [(''prevstate'', JStr ''running'')]), request [],
      root1\<lparr>queues := [(''p'', [msg ''j3'']), (''q'', [])],
        signals := [(42, ''INT'')],
        processes := [(0, proc ''p'' ''j1'' 41 None)],
        finished := [proc ''p'' ''j1'' 40 (Some 950), proc ''p'' ''j2'' 42 (Some 1000)]\<rparr>)"
  by (simp add: Cancel_body_def queue_remove_def root1_sel msg_sel proc_sel signalProcess_def
      finished_add_def return_def now_env0 proc_ended)
    (simp add: root1_def)

text \<open>
  Claim C2 as stated fails where the job id is both pending and running: job \<open>j2\<close> of project
  \<open>p\<close> is in the queue and has a running process; the pending job is removed, but the reported
  \<^verbatim>\<open>prevstate\<close> is \<^verbatim>\<open>running\<close>, not \<^verbatim>\<open>pending\<close>.
\<close>

theorem cancel_pending_and_running_counterexample:
  "map_of (queues root1) ''p'' = Some [msg ''j3'', msg ''j2''] \<and>
   Cancel_render_POST env0 (request [(''project'', [''p'']), (''job'', [''j2''])]) root1 =
     (Inr (Some [(''prevstate'', JStr ''running'')]), request [],
      root1\<lparr>queues := [(''p'', [msg ''j3'']), (''q'', [])],
        signals := [(42, ''INT'')],
        processes := [(0, proc ''p'' ''j1'' 41 None)],
        finished := [proc ''p'' ''j1'' 40 (Some 950), proc ''p'' ''j2'' 42 (Some 1000)]\<rparr>) \<and>
   JStr ''running'' \<noteq> JStr ''pending''"
  by (simp add: Cancel_bound now_env0 cancel_j2 root1_sel)

text \<open>
  Claim C2, amended. A Cancel request on a project that has a queue removes from that queue
  every pending job with the job id; every running process of the project with the job id is
  signalled, removed from the running processes and appended to the finished records with its
  end time set to the moment of the cancellation, whatever the signal did; \<^verbatim>\<open>prevstate\<close> is
  \<^verbatim>\<open>running\<close> when a running process matched, otherwise \<^verbatim>\<open>pending\<close> when a pending job
  matched, otherwise null; the finished records are not consulted. The keys of the running
  processes, those of a dict, are distinct.
\<close>

theorem cancel_effect:
  assumes "map_of (queues s) project = Some q" and "distinct (map fst (processes s))"
  shows "Cancel_body e project job sig tx s =
    (Inr (Some [(''prevstate'',
       if \<exists>p\<in>set (map snd (processes s)). proc_project p = project \<and> proc_job p = job
         then JStr ''running''
       else if \<exists>m\<in>set q. msg_job m = job then JStr ''pending''
       else JNull)]),
     tx,
     s\<lparr>queues := AList.update project (filter (\<lambda>m. msg_job m \<noteq> job) q) (queues s),
       signals := signals s @
         map (\<lambda>p. (proc_pid p, sig))
           (filter (\<lambda>p. proc_project p = project \<and> proc_job p = job) (map snd (processes s))),
       processes :=
         filter (\<lambda>kp. \<not> (proc_project (snd kp) = project \<and> proc_job (snd kp) = job)) (processes s),
       finished := finished s @
         map (\<lambda>p. p\<lparr>proc_end_time := Some (now e)\<rparr>)
           (filter (\<lambda>p. proc_project p = project \<and> proc_job p = job) (map snd (processes s)))\<rparr>)"
proof -
  let ?M = "\<lambda>p. proc_project p = project \<and> proc_job p = job"
  have L: "cancel_loop e project job sig (processes s) (prev, s\<lparr>queues := qs\<rparr>) =
     ((if \<exists>p\<in>set (map snd (processes s)). ?M p then JStr ''running'' else prev),
      s\<lparr>queues := qs,
        signals := signals s @ map (\<lambda>p. (proc_pid p, sig)) (filter ?M (map snd (processes s))),
        processes := filter (\<lambda>kp. \<not> ?M (snd kp)) (processes s),
        finished := finished s @
          map (\<lambda>p. p\<lparr>proc_end_time := Some (now e)\<rparr>) (filter ?M (map snd (processes s)))\<rparr>)"
    for prev qs
    using cancel_loop_distinct [of "s\<lparr>queues := qs\<rparr>" e project job sig prev] assms(2)
    by simp
  show ?thesis
    by (simp add: Cancel_body_def queue_remove_def assms(1) L return_def filter_empty_conv)
qed

theorem cancel_effect_witness:
  "map_of (queues root1) ''p'' = Some [msg ''j3'', msg ''j2''] \<and>
   distinct (map fst (processes root1)) \<and>
   Cancel_body env0 ''p'' ''j3'' ''INT'' (request []) root1 =
     (Inr (Some [(''prevstate'', JStr ''pending'')]), request [],
      root1\<lparr>queues := [(''p'', [msg ''j2'']), (''q'', [])]\<rparr>) \<and>
   Cancel_body env0 ''p'' ''j1'' ''INT'' (request []) root1 =
     (Inr (Some [(''prevstate'', JStr ''running'')]), request [],
      root1\<lparr>signals := [(41, ''INT'')],
        processes := [(1, proc ''p'' ''j2'' 42 None)],
        finished := [proc ''p'' ''j1'' 40 (Some 950), proc ''p'' ''j1'' 41 (Some 1000)]\<rparr>) \<and>
   Cancel_body env0 ''p'' ''j9'' ''INT'' (request []) root1 =
     (Inr (Some [(''prevstate'', JNull)]), request [], root1)"
proof -
  have q: "map_of (queues root1) ''p'' = Some [msg ''j3'', msg ''j2'']"
    by (simp add: root1_sel)
  have d: "distinct (map fst (processes root1))"
    by (simp add: root1_sel)
  have a: "Cancel_body env0 ''p'' ''j3'' ''INT'' (request []) root1 =
     (Inr (Some [(''prevstate'', JStr ''pending'')]), request [],
      root1\<lparr>queues := [(''p'', [msg ''j2'']), (''q'', [])]\<rparr>)"
    using cancel_effect [OF q d, of env0 "''j3''" "''INT''" "request []"]
    by (simp add: root1_sel msg_sel proc_sel root1_def)
  have b: "Cancel_body env0 ''p'' ''j1'' ''INT'' (request []) root1 =
     (Inr (Some [(''prevstate'', JStr ''running'')]), request [],
      root1\<lparr>signals := [(41, ''INT'')],
        processes := [(1, proc ''p'' ''j2'' 42 None)],
        finished := [proc ''p'' ''j1'' 40 (Some 950), proc ''p'' ''j1'' 41 (Some 1000)]\<rparr>)"
    using cancel_effect [OF q d, of env0 "''j1''" "''INT''" "request []"]
    by (simp add: root1_sel msg_sel proc_sel now_env0 proc_ended root1_def)
  have c: "Cancel_body env0 ''p'' ''j9'' ''INT'' (request []) root1 =
     (Inr (Some [(''prevstate'', JNull)]), request [], root1)"
    using cancel_effect [OF q d, of env0 "''j9''" "''INT''" "request []"]
    by (simp add: root1_sel msg_sel proc_sel root1_def)
  show ?thesis
    by (intro conjI q d a b c)
qed

subsection \<open>Add version\<close>

lemma map_of_delete_other: "k \<noteq> k' \<Longrightarrow> map_of (AList.delete k' xs) k = map_of xs k"
  by (simp add: delete_conv')

lemma next_value_bytes:
  "next_value e TBytes n raw = Inr x \<Longrightarrow> \<exists>v vs. raw = v # vs \<and> x = VBytes v"
  by (cases raw) (auto simp: convert_def)

lemma not_zip_env0: "\<not> is_zipfile env0 ''not a zip''"
  by (simp add: env0_def)

lemma upload_args:
  "map_of (args (request [(''project'', [''p'']), (''version'', [''2'']), (''egg'', [''not a zip''])]))
     ''project'' = Some [''p'']"
  "map_of (args (request [(''project'', [''p'']), (''version'', [''2'']), (''egg'', [''not a zip''])]))
     ''version'' = Some [''2'']"
  "map_of (args (request [(''project'', [''p'']), (''version'', [''2'']), (''egg'', [''not a zip''])]))
     ''egg'' = Some [''not a zip'']"
  "(request [(''project'', [''p'']), (''version'', [''2'']), (''egg'', [''not a zip''])])
     \<lparr>args := AList.delete ''egg'' (AList.delete ''version'' (AList.delete ''project''
        (args (request [(''project'', [''p'']), (''version'', [''2'']), (''egg'', [''not a zip''])]))))\<rparr> =
   request []"
  by (simp_all add: request_def)

text \<open>
  Claim C3. An Add Version call whose egg is not a ZIP archive raises the error with the
  message that hints at \<^verbatim>\<open>egg=@path\<close>, and leaves the daemon's state (egg store, projects,
  spider-list cache) as it was; so does the request that gives project, version and such an
  egg; and every request without a ZIP archive as its egg fails with the state unchanged.
\<close>

theorem non_zip_rejected_before_mutation:
  "(\<not> is_zipfile e egg \<longrightarrow>
      AddVersion_body e project version egg tx s =
        (Inl (Error http_OK ''egg is not a ZIP file (if using curl, use egg=@path not egg=path)''),
         tx, s)) \<and>
   (map_of (args tx) ''project'' = Some (project # ps) \<and> utf8_valid project \<and>
    map_of (args tx) ''version'' = Some (version # vs) \<and> utf8_valid version \<and>
    map_of (args tx) ''egg'' = Some (egg # es) \<and> \<not> is_zipfile e egg \<longrightarrow>
      AddVersion_render_POST e tx s =
        (Inl (Error http_OK ''egg is not a ZIP file (if using curl, use egg=@path not egg=path)''),
         tx\<lparr>args := AList.delete ''egg'' (AList.delete ''version''
             (AList.delete ''project'' (args tx)))\<rparr>, s)) \<and>
   ((\<forall>egg es. map_of (args tx) ''egg'' = Some (egg # es) \<longrightarrow> \<not> is_zipfile e egg) \<longrightarrow>
      (\<exists>x tx'. AddVersion_render_POST e tx s = (Inl x, tx', s)))"
proof (intro conjI impI)
  assume "\<not> is_zipfile e egg"
  then show "AddVersion_body e project version egg tx s =
        (Inl (Error http_OK ''egg is not a ZIP file (if using curl, use egg=@path not egg=path)''),
         tx, s)"
    by (simp add: AddVersion_body_def raise_def)
next
  assume "map_of (args tx) ''project'' = Some (project # ps) \<and> utf8_valid project \<and>
    map_of (args tx) ''version'' = Some (version # vs) \<and> utf8_valid version \<and>
    map_of (args tx) ''egg'' = Some (egg # es) \<and> \<not> is_zipfile e egg"
  then show "AddVersion_render_POST e tx s =
        (Inl (Error http_OK ''egg is not a ZIP file (if using curl, use egg=@path not egg=path)''),
         tx\<lparr>args := AList.delete ''egg'' (AList.delete ''version''
             (AList.delete ''project'' (args tx)))\<rparr>, s)"
    by (simp add: AddVersion_render_POST_def AddVersion_call_def eval_param AddVersion_body_def
        map_of_delete_other Let_def)
next
  assume z: "\<forall>egg es. map_of (args tx) ''egg'' = Some (egg # es) \<longrightarrow> \<not> is_zipfile e egg"
  show "\<exists>x tx'. AddVersion_render_POST e tx s = (Inl x, tx', s)"
    using z
    by (auto simp: AddVersion_render_POST_def AddVersion_call_def eval_param AddVersion_body_def
        map_of_delete_other Let_def dest!: next_value_bytes
        split: option.splits list.splits sum.splits if_splits)
qed

theorem non_zip_rejected_before_mutation_witness:
  "\<not> is_zipfile env0 ''not a zip'' \<and>
   AddVersion_body env0 ''p'' ''2'' ''not a zip''
       (request [(''project'', [''p'']), (''version'', [''2'']), (''egg'', [''not a zip''])]) root0 =
     (Inl (Error http_OK ''egg is not a ZIP file (if using curl, use egg=@path not egg=path)''),
      request [(''project'', [''p'']), (''version'', [''2'']), (''egg'', [''not a zip''])], root0) \<and>
   AddVersion_render_POST env0
       (request [(''project'', [''p'']), (''version'', [''2'']), (''egg'', [''not a zip''])]) root0 =
     (Inl (Error http_OK ''egg is not a ZIP file (if using curl, use egg=@path not egg=path)''),
      request [], root0) \<and>
   (\<exists>x tx'. AddVersion_render_POST env0
       (request [(''project'', [''p'']), (''version'', [''2'']), (''egg'', [''not a zip''])]) root0 =
     (Inl x, tx', root0))"
proof -
  let ?tx = "request [(''project'', [''p'']), (''version'', [''2'']), (''egg'', [''not a zip''])]"
  note t = non_zip_rejected_before_mutation [where e = env0 and egg = "''not a zip''" and
      project = "''p''" and version = "''2''" and tx = ?tx and s = root0 and ps = "[]" and
      vs = "[]" and es = "[]"]
  have u: "utf8_valid ''p''" "utf8_valid ''2''"
    by simp_all
  have h: "map_of (args ?tx) ''project'' = Some [''p''] \<and> utf8_valid ''p'' \<and>
    map_of (args ?tx) ''version'' = Some [''2''] \<and> utf8_valid ''2'' \<and>
    map_of (args ?tx) ''egg'' = Some [''not a zip''] \<and> \<not> is_zipfile env0 ''not a zip''"
    by (intro conjI upload_args u not_zip_env0)
  have g: "\<forall>egg es. map_of (args ?tx) ''egg'' = Some (egg # es) \<longrightarrow> \<not> is_zipfile env0 egg"
    by (simp add: upload_args(3) not_zip_env0)
  have a: "AddVersion_body env0 ''p'' ''2'' ''not a zip'' ?tx root0 =
     (Inl (Error http_OK ''egg is not a ZIP file (if using curl, use egg=@path not egg=path)''),
      ?tx, root0)"
    by (rule t [THEN conjunct1, THEN mp, OF not_zip_env0])
  have b: "AddVersion_render_POST env0 ?tx root0 =
     (Inl (Error http_OK ''egg is not a ZIP file (if using curl, use egg=@path not egg=path)''),
      request [], root0)"
    using t [THEN conjunct2, THEN conjunct1, THEN mp, OF h] by (simp only: upload_args(4))
  have c: "\<exists>x tx'. AddVersion_render_POST env0 ?tx root0 = (Inl x, tx', root0)"
    by (rule t [THEN conjunct2, THEN conjunct2, THEN mp, OF g])
  show ?thesis
    by (intro conjI not_zip_env0 a b c)
qed

subsection \<open>Required parameters\<close>

lemma utf8_valid_append: "utf8_valid xs \<Longrightarrow> utf8_valid (xs @ ys) = utf8_valid ys"
proof (induction xs rule: utf8_valid.induct)
  case 1
  show ?case by simp
next
  case (2 c cs)
  show ?case
  proof (cases "(of_char c :: nat) < 0x80")
    case True
    with 2 show ?thesis by simp
  next
    case a: False
    show ?thesis
    proof (cases "0xC2 \<le> (of_char c :: nat) \<and> (of_char c :: nat) \<le> 0xDF")
      case True
      with a 2 show ?thesis by (cases cs) simp_all
    next
      case b: False
      show ?thesis
      proof (cases "0xE0 \<le> (of_char c :: nat) \<and> (of_char c :: nat) \<le> 0xEF")
        case True
        with a b 2 show ?thesis
          by (auto split: list.splits)
      next
        case d: False
        show ?thesis
        proof (cases "0xF0 \<le> (of_char c :: nat) \<and> (of_char c :: nat) \<le> 0xF4")
          case True
          with a b d 2 show ?thesis
            by (auto split: list.splits)
        next
          case False
          with a b d 2 show ?thesis by auto
        qed
      qed
    qed
  qed
qed

lemma utf8_valid_tail: "utf8_valid (sq @ '' parameter is required'')"
  by code_simp

lemma utf8_valid_sq: "utf8_valid (sq @ xs) = utf8_valid xs"
  by simp

lemma utf8_valid_required:
  assumes "utf8_valid name"
  shows "utf8_valid (sq @ name @ sq @ '' parameter is required'')"
  unfolding utf8_valid_sq [of "name @ sq @ '' parameter is required''"]
    utf8_valid_append [OF assms]
  by (rule utf8_valid_tail)

lemma decorate_Nil: "decorate e [] body kw tx s = body kw tx s"
  by (simp add: decorate_def)

lemma decorate_Cons:
  "decorate e (p # ps) body kw tx s =
     (case bind_param e p kw tx of
        (Inl x, tx') \<Rightarrow> (Inl x, tx', s)
      | (Inr kw', tx') \<Rightarrow> decorate e ps body kw' tx' s)"
  by (simp add: decorate_def param_def raise_def split: prod.splits sum.splits)

lemma decorate_append:
  "decorate e (pre @ post) body kw tx s =
     (case decorate e pre return kw tx s of
        (Inl x, tx', s') \<Rightarrow> (Inl x, tx', s')
      | (Inr kw1, tx1, s1) \<Rightarrow> decorate e post body kw1 tx1 s1)"
proof (induction pre arbitrary: kw tx)
  case Nil
  show ?case by (simp add: decorate_Nil return_def)
next
  case (Cons p pre)
  show ?case
    by (simp add: decorate_Cons Cons.IH split: prod.splits sum.splits)
qed

lemma bind_param_keeps:
  assumes "bind_param e p kw tx = (Inr kw', tx')"
  shows "code tx' = code tx \<and> headers tx' = headers tx \<and>
         (map_of (args tx) k = None \<longrightarrow> map_of (args tx') k = None)"
  using assms
  by (auto simp: bind_param_def Let_def delete_conv' split: option.splits if_splits sum.splits)

lemma prefix_keeps:
  "decorate e pre return kw tx s = (Inr kw1, tx1, s1) \<Longrightarrow>
   s1 = s \<and> code tx1 = code tx \<and> headers tx1 = headers tx \<and>
   (map_of (args tx) k = None \<longrightarrow> map_of (args tx1) k = None)"
proof (induction pre arbitrary: kw tx)
  case Nil
  then show ?case by (simp add: decorate_Nil return_def)
next
  case (Cons p pre)
  from Cons.prems obtain kw' tx' where
    b: "bind_param e p kw tx = (Inr kw', tx')" and
    r: "decorate e pre return kw' tx' s = (Inr kw1, tx1, s1)"
    by (auto simp: decorate_Cons split: prod.splits sum.splits)
  from Cons.IH [OF r] bind_param_keeps [OF b, of k] show ?case
    by simp
qed

lemma missing_raises:
  assumes "decorate e pre return kw tx s = (Inr kw1, tx1, s1)"
      and "required p" and "map_of (args tx) (decoded p) = None"
  shows "decorate e (pre @ p # post) body kw tx s =
     (Inl (Error http_OK (sq @ decoded p @ sq @ '' parameter is required'')), tx1, s)"
proof -
  from prefix_keeps [OF assms(1), of "decoded p"] assms(3)
  have k: "s1 = s" "map_of (args tx1) (decoded p) = None"
    by simp_all
  show ?thesis
    by (simp add: decorate_append assms(1) decorate_Cons bind_param_def Let_def k assms(2))
qed

lemma error_message_Error:
  "utf8_valid m \<Longrightarrow> error_message e (Error c m) = Inr m"
  by (simp add: error_message_def decode_def)

lemma WsResource_render_error:
  assumes "h tx s = (Inl (Error http_OK m), tx1, s1)" and "utf8_valid m" and "\<not> debug e"
  shows "\<exists>tx2. WsResource_render e ms h tx s =
         (Inr (json_encode e (JObj [(''status'', JStr ''error''), (''message'', JStr m),
                 (''node_name'', JStr (node_name e))]) @ [CHR 0x0A]), tx2, s1) \<and>
        code tx2 = http_OK \<and> map_of (headers tx2) ''Content-Type'' = Some ''application/json''"
  using assms(3)
  by (simp add: WsResource_render_def assms(1) error_message_Error [OF assms(2)]
      set_error_code_def ws_content_def cors_headers_def Let_def code_setHeader
      code_setResponseCode header_setHeader)

lemma JustContentResource_render_error:
  assumes "h tx s = (Inl (Error http_OK m), tx1, s1)" and "utf8_valid m" and "\<not> debug e"
  shows "\<exists>tx2. JustContentResource_render e ms h tx s =
         (Inr (json_encode e (JObj [(''status'', JStr ''error''), (''message'', JStr m)]) @
               [CHR 0x0A]), tx2, s1) \<and>
        code tx2 = http_OK \<and> map_of (headers tx2) ''Content-Type'' = Some ''application/json''"
  using assms(3)
  by (simp add: JustContentResource_render_def assms(1) error_message_Error [OF assms(2)]
      set_error_code_def just_content_def cors_headers_def Let_def code_setHeader
      code_setResponseCode header_setHeader)

lemma SpiderResults_render_error:
  assumes "h tx s = (Inl (Error http_OK m), tx1, s1)" and "utf8_valid m" and "\<not> debug e"
  shows "\<exists>tx2. SpiderResults_render e h tx s =
         (Inr (json_encode e (JObj [(''status'', JStr ''error''), (''message'', JStr m)])),
          tx2, s1) \<and>
        code tx2 = http_OK"
  using assms(3)
  by (simp add: SpiderResults_render_def assms(1) error_message_Error [OF assms(2)]
      set_error_code_def Let_def code_setResponseCode)

lemma debug_env0: "\<not> debug env0"
  by (simp add: env0_def)

lemma req_sel: "required (req name)" "decoded (req name) = name"
  by (simp_all add: req_def)

lemma Schedule_stack:
  "Schedule_render_POST env0 =
     decorate env0 ([req ''project''] @ req ''spider'' #
       [(opt ''_version'')\<lparr>dest := ''version''\<rparr>,
        (opt ''jobid'')\<lparr>default_value := VStr (uuid_hex env0)\<rparr>,
        (opt ''priority'')\<lparr>default_value := VNum (IntNum 0), type := TFloat\<rparr>,
        (opt ''setting'')\<lparr>default_value := VList [], multiple := True\<rparr>])
       (Schedule_call env0) Map.empty"
  by (simp add: Schedule_render_POST_def Schedule_params_def)

lemma project_bound:
  "decorate env0 [req ''project''] return Map.empty (request [(''project'', [''p''])]) root1 =
     (Inr [''project'' \<mapsto> VStr ''p''], request [], root1)"
  by (simp add: eval_param request_def)

text \<open>
  Claim C7 as stated fails for the operations of \<^verbatim>\<open>RawContentResource\<close>, whose \<^verbatim>\<open>render\<close> catches
  nothing: the result download declares the required parameter \<open>project\<close>, and a request
  without it ends in the error leaving \<^verbatim>\<open>render\<close>, not in a JSON error envelope.
\<close>

theorem raw_download_missing_parameter_counterexample:
  "required (req ''project'') \<and>
   map_of (args (request [(''job_id'', [''x''])])) (decoded (req ''project'')) = None \<and>
   \<not> debug env0 \<and>
   SpiderDownloadResult_render_GET env0 =
     decorate env0 [req ''project'', req ''job_id''] (SpiderDownloadResult_call env0) Map.empty \<and>
   RawContentResource_render (SpiderDownloadResult_render_GET env0)
       (request [(''job_id'', [''x''])]) root0 =
     (Inl (Error http_OK (sq @ ''project'' @ sq @ '' parameter is required'')),
      request [(''job_id'', [''x''])], root0)"
proof -
  have a: "map_of (args (request [(''job_id'', [''x''])])) (decoded (req ''project'')) = None"
    by (simp add: req_sel request_def)
  have b: "RawContentResource_render (SpiderDownloadResult_render_GET env0)
       (request [(''job_id'', [''x''])]) root0 =
     (Inl (Error http_OK (sq @ ''project'' @ sq @ '' parameter is required'')),
      request [(''job_id'', [''x''])], root0)"
    by (simp add: RawContentResource_render_def SpiderDownloadResult_render_GET_def eval_param
        request_def)
  show ?thesis
    by (intro conjI req_sel(1) a debug_env0 SpiderDownloadResult_render_GET_def b)
qed

text \<open>
  Claim C7, amended. Take a handler behind a stack of \<^verbatim>\<open>param\<close> decorators, and in it a required
  parameter whose wire name the request omits, the parameters before it being bound. Then the
  call raises the error with status 200 and the message \<^verbatim>\<open>'<name>' parameter is required\<close>,
  whatever the handler body is and with the daemon's state unchanged. Where debug is off,
  \<^verbatim>\<open>WsResource.render\<close> answers with status 200 and the JSON envelope of status \<^verbatim>\<open>error\<close>, this
  message and the node name; \<^verbatim>\<open>JustContentResource.render\<close> with status 200 and the envelope
  of status and message; \<^verbatim>\<open>SpiderResults.render\<close> with status 200 and the same object without
  the line feed.
\<close>

theorem missing_required_parameter:
  assumes "decorate e pre return kw tx s = (Inr kw1, tx1, s1)"
      and "required p" and "map_of (args tx) (decoded p) = None"
      and "utf8_valid (decoded p)" and "\<not> debug e"
  shows "decorate e (pre @ p # post) body kw tx s =
       (Inl (Error http_OK (sq @ decoded p @ sq @ '' parameter is required'')), tx1, s) \<and>
     (\<exists>tx2. WsResource_render e ms (decorate e (pre @ p # post) body kw) tx s =
         (Inr (json_encode e (JObj [(''status'', JStr ''error''),
                 (''message'', JStr (sq @ decoded p @ sq @ '' parameter is required'')),
                 (''node_name'', JStr (node_name e))]) @ [CHR 0x0A]), tx2, s) \<and>
        code tx2 = http_OK \<and> map_of (headers tx2) ''Content-Type'' = Some ''application/json'') \<and>
     (\<exists>tx2. JustContentResource_render e ms (decorate e (pre @ p # post) body' kw) tx s =
         (Inr (json_encode e (JObj [(''status'', JStr ''error''),
                 (''message'', JStr (sq @ decoded p @ sq @ '' parameter is required''))]) @
               [CHR 0x0A]), tx2, s) \<and>
        code tx2 = http_OK \<and> map_of (headers tx2) ''Content-Type'' = Some ''application/json'') \<and>
     (\<exists>tx2. SpiderResults_render e (decorate e (pre @ p # post) body'' kw) tx s =
         (Inr (json_encode e (JObj [(''status'', JStr ''error''),
                 (''message'', JStr (sq @ decoded p @ sq @ '' parameter is required''))])),
          tx2, s) \<and>
        code tx2 = http_OK)"
proof -
  note u = utf8_valid_required [OF assms(4)]
  note r = missing_raises [OF assms(1-3)]
  show ?thesis
    by (intro conjI r
        WsResource_render_error [where h = "decorate e (pre @ p # post) body kw" and tx = tx
          and s = s, OF r u assms(5)]
        JustContentResource_render_error [where h = "decorate e (pre @ p # post) body' kw"
          and tx = tx and s = s, OF r u assms(5)]
        SpiderResults_render_error [where h = "decorate e (pre @ p # post) body'' kw"
          and tx = tx and s = s, OF r u assms(5)])
qed

theorem missing_required_parameter_witness:
  "decorate env0 [req ''project''] return Map.empty (request [(''project'', [''p''])]) root1 =
     (Inr [''project'' \<mapsto> VStr ''p''], request [], root1) \<and>
   required (req ''spider'') \<and>
   map_of (args (request [(''project'', [''p''])])) (decoded (req ''spider'')) = None \<and>
   utf8_valid (decoded (req ''spider'')) \<and> \<not> debug env0 \<and>
   Schedule_render_POST env0 (request [(''project'', [''p''])]) root1 =
     (Inl (Error http_OK (sq @ ''spider'' @ sq @ '' parameter is required'')), request [], root1) \<and>
   (\<exists>tx2. WsResource_render env0 (methods False True) (Schedule_render_POST env0)
        (request [(''project'', [''p''])]) root1 =
      (Inr (json_encode env0 (JObj [(''status'', JStr ''error''),
              (''message'', JStr (sq @ ''spider'' @ sq @ '' parameter is required'')),
              (''node_name'', JStr (node_name env0))]) @ [CHR 0x0A]), tx2, root1) \<and>
      code tx2 = http_OK \<and> map_of (headers tx2) ''Content-Type'' = Some ''application/json'')"
proof -
  have a: "map_of (args (request [(''project'', [''p''])])) (decoded (req ''spider'')) = None"
    by (simp add: req_sel request_def)
  have u: "utf8_valid (decoded (req ''spider''))"
    by (simp add: req_sel)
  note t = missing_required_parameter [OF project_bound req_sel(1) a u debug_env0,
      where body = "Schedule_call env0" and ms = "methods False True" and
        post = "[(opt ''_version'')\<lparr>dest := ''version''\<rparr>,
        (opt ''jobid'')\<lparr>default_value := VStr (uuid_hex env0)\<rparr>,
        (opt ''priority'')\<lparr>default_value := VNum (IntNum 0), type := TFloat\<rparr>,
        (opt ''setting'')\<lparr>default_value := VList [], multiple := True\<rparr>]",
      unfolded req_sel(2), folded Schedule_stack]
  show ?thesis
    by (intro conjI project_bound req_sel(1) a u debug_env0 t [THEN conjunct1]
        t [THEN conjunct2, THEN conjunct1])
qed

end
